theory Spec2Isabelle
  imports Complex_Main "HOL-Library.Word" "HOL-Library.Sublist" "HOL-Library.Log_Nat"
begin

section \<open>JavaScript strings\<close>

text \<open>
  A JavaScript string is a sequence of UTF-16 code units. The icons of the source
  (emoji outside the basic plane) are surrogate pairs, the white space removed by
  \<^verbatim>\<open>trim\<close> and the no-break space escaped by the DOM lie outside ASCII, so the code
  units are kept as 16-bit words. \<open>js\<close> embeds an ASCII literal.
\<close>

type_synonym jschar = "16 word"
type_synonym jsstring = "jschar list"

definition js :: "string \<Rightarrow> jsstring" where
  "js s = map of_char s"

text \<open>\<^verbatim>\<open>!s\<close> for a string \<open>s\<close>: only the empty string is falsy.\<close>

definition falsy :: "jsstring \<Rightarrow> bool" where
  "falsy s = (s = [])"

text \<open>\<^verbatim>\<open>!v\<close> for a value that is a string or \<^verbatim>\<open>null\<close>.\<close>

definition falsy_opt :: "jsstring option \<Rightarrow> bool" where
  "falsy_opt v = (case v of None \<Rightarrow> True | Some s \<Rightarrow> falsy s)"

text \<open>\<^verbatim>\<open>a || b\<close> on such values, with a string default.\<close>

definition or_else :: "jsstring option \<Rightarrow> jsstring \<Rightarrow> jsstring" where
  "or_else v d = (case v of None \<Rightarrow> d | Some s \<Rightarrow> if falsy s then d else s)"

text \<open>String conversion of a string or \<^verbatim>\<open>null\<close> inside a template literal.\<close>

definition template_str :: "jsstring option \<Rightarrow> jsstring" where
  "template_str v = (case v of None \<Rightarrow> js ''null'' | Some s \<Rightarrow> s)"

text \<open>\<^verbatim>\<open>String.prototype.includes\<close>.\<close>

fun includes_str :: "jsstring \<Rightarrow> jsstring \<Rightarrow> bool" where
  "includes_str [] sub = (sub = [])"
| "includes_str (c # cs) sub = (prefix sub (c # cs) \<or> includes_str cs sub)"

text \<open>
  \<^verbatim>\<open>String.prototype.trim\<close> removes the WhiteSpace and LineTerminator code points of
  ECMAScript from both ends.
\<close>

definition is_white_space :: "jschar \<Rightarrow> bool" where
  "is_white_space c \<longleftrightarrow>
     c = 0x0009 \<or> c = 0x000A \<or> c = 0x000B \<or> c = 0x000C \<or> c = 0x000D \<or> c = 0x0020 \<or>
     c = 0x00A0 \<or> c = 0x1680 \<or> (0x2000 \<le> c \<and> c \<le> 0x200A) \<or> c = 0x2028 \<or>
     c = 0x2029 \<or> c = 0x202F \<or> c = 0x205F \<or> c = 0x3000 \<or> c = 0xFEFF"

definition trim :: "jsstring \<Rightarrow> jsstring" where
  "trim s = rev (dropWhile is_white_space (rev (dropWhile is_white_space s)))"

text \<open>
  \<^verbatim>\<open>s.split(sep)\<close> for a non-empty separator: the pieces between the occurrences of
  \<open>sep\<close>, found from left to right without overlap. \<open>acc\<close> is the piece being read.
\<close>

fun split_acc :: "jsstring \<Rightarrow> jsstring \<Rightarrow> jsstring \<Rightarrow> jsstring list" where
  "split_acc sep acc [] = [acc]"
| "split_acc sep acc (c # cs) =
     (if prefix sep (c # cs)
      then acc # split_acc sep [] (drop (length sep - 1) cs)
      else split_acc sep (acc @ [c]) cs)"

definition split :: "jsstring \<Rightarrow> jsstring \<Rightarrow> jsstring list" where
  "split s sep = split_acc sep [] s"

text \<open>Decimal digits of a natural number, as \<^verbatim>\<open>String(n)\<close> prints an integer.\<close>

definition digit :: "nat \<Rightarrow> jschar" where
  "digit d = of_nat (48 + d)"

function digits :: "nat \<Rightarrow> jsstring" where
  "digits n = (if n < 10 then [digit n] else digits (n div 10) @ [digit (n mod 10)])"
  by pat_completeness auto
termination
  by (relation "measure id") auto

declare digits.simps [simp del]

section \<open>Admin client: badge classes\<close>

text \<open>\<^verbatim>\<open>getBadgeClass\<close> of admin.js: strict equality on the extension string.\<close>

definition getBadgeClass :: "jsstring \<Rightarrow> jsstring" where
  "getBadgeClass type =
     (if type = js ''.pdf'' then js ''badge-pdf''
      else if type = js ''.docx'' \<or> type = js ''.doc'' then js ''badge-word''
      else if type = js ''.xlsx'' \<or> type = js ''.xls'' then js ''badge-excel''
      else js ''badge-pdf'')"

section \<open>JavaScript numbers\<close>

text \<open>
  The numbers of \<^verbatim>\<open>formatFileSize\<close> are modelled by their exact values: a finite number
  is a rational, and \<^verbatim>\<open>NaN\<close> is kept apart since it decides what is printed. This is
  the code for a negative size (the logarithm is \<^verbatim>\<open>NaN\<close> and stays so) and for an integer
  size below \<open>2 ^ 40\<close>, where the doubles of the source hold exactly these values: the
  quotient by a power of 1024, its product with 100 and the rounded integer are exact
  in double precision, and the last quotient by 100 is the double nearest to a decimal
  with at most two places, which is printed as that decimal. From \<open>2 ^ 40\<close> on the
  doubles round (the quotient of the two logarithms of \<open>2 ^ 50 - 1\<close> is exactly 5 in
  double precision, though the size is below \<open>1024 ^ 5\<close>), the model is no longer the
  code, and nothing is stated about such sizes.
\<close>

datatype number = Fin rat | NaN

text \<open>
  \<^verbatim>\<open>Math.floor(Math.log(bytes) / Math.log(k))\<close> for an integer \<open>bytes \<noteq> 0\<close>: the logarithm
  of a negative number is \<^verbatim>\<open>NaN\<close>, which the division and \<^verbatim>\<open>Math.floor\<close> hand on; for
  positive \<open>bytes\<close> it is the integer part of the logarithm to base \<open>k\<close>, taken
  exactly and computed by repeated division (\<open>floorlog k n\<close> is that integer part plus
  one).
\<close>

definition floor_log :: "int \<Rightarrow> nat \<Rightarrow> number" where
  "floor_log bytes k =
     (if bytes < 0 then NaN else Fin (of_nat (floorlog k (nat bytes)) - 1))"

text \<open>\<^verbatim>\<open>Math.pow(k, i)\<close> for a non-negative integer exponent.\<close>

fun Math_pow :: "nat \<Rightarrow> number \<Rightarrow> number" where
  "Math_pow k (Fin i) = Fin (of_nat k ^ nat \<lfloor>i\<rfloor>)"
| "Math_pow k NaN = NaN"

fun num_div :: "number \<Rightarrow> number \<Rightarrow> number" where
  "num_div (Fin a) (Fin b) = Fin (a / b)"
| "num_div _ _ = NaN"

fun num_mul :: "number \<Rightarrow> number \<Rightarrow> number" where
  "num_mul (Fin a) (Fin b) = Fin (a * b)"
| "num_mul _ _ = NaN"

text \<open>\<^verbatim>\<open>Math.round\<close>: the nearest integer, a tie going up.\<close>

fun Math_round :: "number \<Rightarrow> number" where
  "Math_round (Fin a) = Fin (of_int \<lfloor>a + 1 / 2\<rfloor>)"
| "Math_round NaN = NaN"

text \<open>
  The string of a number in a concatenation, for the values \<^verbatim>\<open>Math.round(x) / 100\<close>
  produces: a multiple of \<open>1 / 100\<close> is printed with its integer part and at most two
  decimals, trailing zeros dropped.
\<close>

definition number_str :: "number \<Rightarrow> jsstring" where
  "number_str x =
     (case x of
        NaN \<Rightarrow> js ''NaN''
      | Fin q \<Rightarrow>
          let n = nat \<lfloor>\<bar>q\<bar> * 100\<rfloor>; ip = n div 100; fp = n mod 100
          in (if q < 0 then js ''-'' else []) @ digits ip @
             (if fp = 0 then []
              else js ''.'' @ [digit (fp div 10)] @
                   (if fp mod 10 = 0 then [] else [digit (fp mod 10)])))"

text \<open>
  \<^verbatim>\<open>xs[i]\<close> in a string concatenation: an index that is no position of the array
  (\<^verbatim>\<open>NaN\<close>, a fraction, a negative number or one past the end) reads \<^verbatim>\<open>undefined\<close>,
  which is concatenated as the text \<^verbatim>\<open>undefined\<close>.
\<close>

definition element_str :: "jsstring list \<Rightarrow> number \<Rightarrow> jsstring" where
  "element_str xs i =
     (case i of
        NaN \<Rightarrow> js ''undefined''
      | Fin q \<Rightarrow>
          if q = of_int \<lfloor>q\<rfloor> \<and> 0 \<le> q \<and> nat \<lfloor>q\<rfloor> < length xs then xs ! nat \<lfloor>q\<rfloor>
          else js ''undefined'')"

section \<open>Admin client: file sizes\<close>

text \<open>\<^verbatim>\<open>formatFileSize\<close> of admin.js, on an integer number of bytes.\<close>

definition formatFileSize :: "int \<Rightarrow> jsstring" where
  "formatFileSize bytes =
     (if bytes = 0 then js ''0 Bytes''
      else let k = 1024;
               sizes = [js ''Bytes'', js ''KB'', js ''MB'', js ''GB''];
               i = floor_log bytes k
           in number_str (num_div (Math_round (num_mul (num_div (Fin (of_int bytes)) (Math_pow k i))
                                                       (Fin 100))) (Fin 100))
              @ js '' '' @ element_str sizes i)"

section \<open>Query clients: source icons\<close>

text \<open>
  \<^verbatim>\<open>getSourceIcon\<close> is the same function in app.js and in the chat client. It reads
  \<^verbatim>\<open>icons[type]\<close> from an object literal, and a property read follows the prototype
  chain: a key that is not an own property of \<^verbatim>\<open>icons\<close> but names a member of
  \<^verbatim>\<open>Object.prototype\<close> yields that member (a function, or the prototype object for
  \<^verbatim>\<open>__proto__\<close>), which is an object and so truthy. \<open>Inherited k\<close> stands for the member
  named \<open>k\<close>.
\<close>

datatype jsvalue = Str jsstring | Undefined | Inherited jsstring

definition Object_prototype :: "jsstring list" where
  "Object_prototype =
     [js ''constructor'', js ''hasOwnProperty'', js ''isPrototypeOf'',
      js ''propertyIsEnumerable'', js ''toLocaleString'', js ''toString'', js ''valueOf'',
      js ''__proto__'', js ''__defineGetter__'', js ''__defineSetter__'',
      js ''__lookupGetter__'', js ''__lookupSetter__'']"

definition get_property :: "(jsstring \<times> jsstring) list \<Rightarrow> jsstring \<Rightarrow> jsvalue" where
  "get_property obj key =
     (case map_of obj key of
        Some v \<Rightarrow> Str v
      | None \<Rightarrow> if key \<in> set Object_prototype then Inherited key else Undefined)"

definition truthy :: "jsvalue \<Rightarrow> bool" where
  "truthy v = (case v of Str s \<Rightarrow> \<not> falsy s | Undefined \<Rightarrow> False | Inherited _ \<Rightarrow> True)"

text \<open>The icons are emoji, each a surrogate pair: U+1F4D5, U+1F4C4 and U+1F4CA.\<close>

definition icon_pdf :: jsstring where "icon_pdf = [0xD83D, 0xDCD5]"
definition icon_word :: jsstring where "icon_word = [0xD83D, 0xDCC4]"
definition icon_excel :: jsstring where "icon_excel = [0xD83D, 0xDCCA]"

definition icons :: "(jsstring \<times> jsstring) list" where
  "icons = [(js ''pdf'', icon_pdf), (js ''word'', icon_word), (js ''excel'', icon_excel)]"

definition getSourceIcon :: "jsstring \<Rightarrow> jsvalue" where
  "getSourceIcon type =
     (let v = get_property icons type in if truthy v then v else Str icon_word)"


section \<open>Requests, responses and the trace of effects\<close>

text \<open>
  A \<^verbatim>\<open>fetch\<close> call is recorded with its method, URL, headers and body. The clients
  share no state with the backend: what a request yields is an input of the model.
  \<open>NetworkError m\<close> is a rejected \<^verbatim>\<open>fetch\<close> promise (an exception with message \<open>m\<close>);
  \<open>Response status body\<close> is a response, whose \<^verbatim>\<open>json()\<close> either rejects with a message
  (\<open>Inl\<close>) or yields the parsed value (\<open>Inr\<close>).
\<close>

datatype body = NoBody | FormData jsstring | JsonQuery jsstring nat

record request =
  http_method :: jsstring
  url :: jsstring
  headers :: "(jsstring \<times> jsstring) list"
  body :: body

datatype 'a fetched = NetworkError jsstring | Response nat "jsstring + 'a"

text \<open>\<^verbatim>\<open>response.ok\<close>: a status from 200 to 299.\<close>

definition ok :: "nat \<Rightarrow> bool" where
  "ok status \<longleftrightarrow> 200 \<le> status \<and> status \<le> 299"

text \<open>
  What a handler does to the world outside its page state, in the order it does it:
  a request is issued, an awaited request settles (resolves or rejects), the status
  banner is shown by \<^verbatim>\<open>showStatus(message, type)\<close>, a blocking \<^verbatim>\<open>alert\<close>, a line on the
  console, a navigation by assignment to \<^verbatim>\<open>window.location.href\<close>, focus and scrolling.
  The timers of the source (the banner hidden after 3 s, the scroll after 100 ms) are
  not modelled.
\<close>

datatype event =
    Issued request
  | Settled
  | Status jsstring jsstring
  | Alert jsstring
  | ConsoleLog jsstring
  | ConsoleError jsstring
  | Navigated jsstring
  | Focus
  | Scroll

section \<open>Admin client: state\<close>

text \<open>A document of the listing, and the row \<^verbatim>\<open>createDocumentRow\<close> builds for it.\<close>

record document =
  doc_filename :: jsstring
  doc_type :: jsstring
  doc_size :: int
  doc_upload_date :: jsstring
  doc_indexed :: bool

record row =
  row_filename :: jsstring
  row_fileType :: jsstring
  row_badgeClass :: jsstring
  row_size :: jsstring
  row_date :: jsstring
  row_indexed :: bool

text \<open>What \<^verbatim>\<open>documentsTable\<close> shows.\<close>

datatype table_view = Loading | LoadFailed | NoDocuments | Table "row list"

text \<open>A file chosen for upload: only its name is read by the client.\<close>

record upfile =
  name :: jsstring

text \<open>
  The state of the admin page: the \<^verbatim>\<open>token\<close> item of \<^verbatim>\<open>localStorage\<close>, the constant
  \<^verbatim>\<open>token\<close> read from it when the script starts, the location, the elements the
  handlers write, the variable \<^verbatim>\<open>fileToDelete\<close>, and the trace of effects. The two
  counters are the suspended continuations of \<^verbatim>\<open>loadDocuments\<close> and of the confirm
  handler, each waiting for its request to settle.
\<close>

record admin =
  localStorage_token :: "jsstring option"
  token :: "jsstring option"
  location_href :: jsstring
  uploadProgress_display :: jsstring
  progressFill_percent :: rat
  uploadStatus_text :: jsstring
  fileInput_value :: jsstring
  documentsTable :: table_view
  fileToDelete :: "jsstring option"
  deleteFilename_text :: jsstring
  deleteModal_display :: jsstring
  awaiting_list :: nat
  awaiting_delete :: nat
  trace :: "event list"

definition API_BASE :: jsstring where
  "API_BASE = js ''/api/admin''"

text \<open>\<^verbatim>\<open>authHeaders\<close>: the template literal prints a missing token as \<^verbatim>\<open>null\<close>.\<close>

definition authHeaders :: "jsstring option \<Rightarrow> (jsstring \<times> jsstring) list" where
  "authHeaders tok = [(js ''Authorization'', js ''Bearer '' @ template_str tok)]"

definition emit :: "event list \<Rightarrow> admin \<Rightarrow> admin" where
  "emit es s = s\<lparr>trace := trace s @ es\<rparr>"

definition showStatus :: "jsstring \<Rightarrow> jsstring \<Rightarrow> admin \<Rightarrow> admin" where
  "showStatus message type s = emit [Status message type] s"

section \<open>Admin client: listing the documents\<close>

text \<open>\<^verbatim>\<open>toUpperCase\<close> on the ASCII letters; the extensions of the listing are ASCII.\<close>

definition toUpperCase :: "jsstring \<Rightarrow> jsstring" where
  "toUpperCase s = map (\<lambda>c. if 0x61 \<le> c \<and> c \<le> 0x7A then c - 0x20 else c) s"

definition createDocumentRow :: "document \<Rightarrow> row" where
  "createDocumentRow doc =
     \<lparr>row_filename = doc_filename doc,
      row_fileType = toUpperCase (drop 1 (doc_type doc)),
      row_badgeClass = getBadgeClass (doc_type doc),
      row_size = formatFileSize (doc_size doc),
      row_date = doc_upload_date doc,
      row_indexed = doc_indexed doc\<rparr>"

definition displayDocuments :: "document list \<Rightarrow> admin \<Rightarrow> admin" where
  "displayDocuments documents s =
     (if length documents = 0 then s\<lparr>documentsTable := NoDocuments\<rparr>
      else s\<lparr>documentsTable := Table (map createDocumentRow documents)\<rparr>)"

definition documents_request :: "jsstring option \<Rightarrow> request" where
  "documents_request tok =
     \<lparr>http_method = js ''GET'', url = API_BASE @ js ''/documents'',
      headers = authHeaders tok, body = NoBody\<rparr>"

text \<open>
  \<^verbatim>\<open>loadDocuments\<close> up to its \<^verbatim>\<open>await fetch\<close>: the loading placeholder is shown and the
  request is issued.
\<close>

definition loadDocuments_begin :: "admin \<Rightarrow> admin" where
  "loadDocuments_begin s =
     emit [Issued (documents_request (token s))]
       (s\<lparr>documentsTable := Loading, awaiting_list := awaiting_list s + 1\<rparr>)"

text \<open>
  The \<^verbatim>\<open>try\<close> block of \<^verbatim>\<open>loadDocuments\<close> once the request has settled: the message of
  the exception it throws (\<open>Inl\<close>), or the documents (\<open>Inr\<close>).
\<close>

definition loadDocuments_try :: "document list fetched \<Rightarrow> jsstring + document list" where
  "loadDocuments_try outcome =
     (case outcome of
        NetworkError m \<Rightarrow> Inl m
      | Response status json \<Rightarrow>
          if \<not> ok status then Inl (js ''Failed to load documents'')
          else (case json of Inl m \<Rightarrow> Inl m | Inr documents \<Rightarrow> Inr documents))"

text \<open>The rest of \<^verbatim>\<open>loadDocuments\<close>: the documents are displayed, or the \<^verbatim>\<open>catch\<close> block runs.\<close>

definition loadDocuments_resume :: "document list fetched \<Rightarrow> admin \<Rightarrow> admin" where
  "loadDocuments_resume outcome s =
     (let s1 = emit [Settled] (s\<lparr>awaiting_list := awaiting_list s - 1\<rparr>)
      in case loadDocuments_try outcome of
           Inr documents \<Rightarrow> displayDocuments documents s1
         | Inl message \<Rightarrow>
             let s2 = (emit [ConsoleError (js ''Error loading documents:'')] s1)
                        \<lparr>documentsTable := LoadFailed\<rparr>
             in if includes_str message (js ''401'')
                then emit [Navigated (js ''/login'')]
                       (s2\<lparr>localStorage_token := None, location_href := js ''/login''\<rparr>)
                else s2)"

definition loadDocuments :: "document list fetched \<Rightarrow> admin \<Rightarrow> admin" where
  "loadDocuments outcome s = loadDocuments_resume outcome (loadDocuments_begin s)"

section \<open>Admin client: the script run on page load\<close>

text \<open>
  The top level of admin.js: the token is read, a missing or empty token assigns the
  login path to the location, and the script goes on: the assignment does not stop it.
  It declares \<^verbatim>\<open>fileToDelete\<close>, registers the handlers and ends with the call of
  \<^verbatim>\<open>loadDocuments\<close>.
\<close>

definition admin_script :: "admin \<Rightarrow> admin" where
  "admin_script s =
     (let s1 = s\<lparr>token := localStorage_token s\<rparr>;
          s2 = (if falsy_opt (token s1)
                then emit [Navigated (js ''/login'')] (s1\<lparr>location_href := js ''/login''\<rparr>)
                else s1);
          s3 = s2\<lparr>fileToDelete := None\<rparr>
      in loadDocuments_begin s3)"

text \<open>The admin page as the browser hands it to the script, for a stored token.\<close>

definition fresh_page :: "jsstring option \<Rightarrow> admin" where
  "fresh_page stored =
     \<lparr>localStorage_token = stored, token = None, location_href = js ''/admin'',
      uploadProgress_display = js ''none'', progressFill_percent = 0, uploadStatus_text = [],
      fileInput_value = [], documentsTable = Loading, fileToDelete = None,
      deleteFilename_text = [], deleteModal_display = js ''none'',
      awaiting_list = 0, awaiting_delete = 0, trace = []\<rparr>"

section \<open>Admin client: upload\<close>

definition upload_request :: "jsstring option \<Rightarrow> upfile \<Rightarrow> request" where
  "upload_request tok file =
     \<lparr>http_method = js ''POST'', url = API_BASE @ js ''/upload'',
      headers = authHeaders tok, body = FormData (name file)\<rparr>"

text \<open>
  \<^verbatim>\<open>uploadFile\<close>: the request is issued and awaited. The parsed body of a response is
  its \<^verbatim>\<open>detail\<close> field, if it has one. The result is the message of the exception
  thrown (\<open>Inl\<close>) or the value returned (\<open>Inr\<close>).
\<close>

definition uploadFile ::
  "upfile \<Rightarrow> jsstring option fetched \<Rightarrow> admin \<Rightarrow> admin \<times> (jsstring + jsstring option)" where
  "uploadFile file outcome s =
     (let s1 = emit [Issued (upload_request (token s) file), Settled] s
      in case outcome of
           NetworkError m \<Rightarrow> (s1, Inl m)
         | Response status json \<Rightarrow>
             if \<not> ok status
             then (case json of
                     Inl m \<Rightarrow> (s1, Inl m)
                   | Inr detail \<Rightarrow> (s1, Inl (or_else detail (js ''Upload failed''))))
             else (case json of Inl m \<Rightarrow> (s1, Inl m) | Inr v \<Rightarrow> (s1, Inr v)))"

text \<open>
  The loop of \<^verbatim>\<open>uploadFiles\<close>, from index \<open>i\<close>. \<open>server i\<close> is what the request for
  the \<open>i\<close>-th file yields. Each request is awaited before the next iteration; an
  exception of \<^verbatim>\<open>uploadFile\<close> is caught inside the iteration.
\<close>

function upload_loop ::
  "(nat \<Rightarrow> jsstring option fetched) \<Rightarrow> upfile list \<Rightarrow> nat \<Rightarrow> admin \<Rightarrow> admin" where
  "upload_loop server files i s =
     (if i < length files
      then let file = files ! i;
               progress = (of_nat (i + 1) / of_nat (length files)) * 100;
               s1 = s\<lparr>progressFill_percent := progress,
                      uploadStatus_text :=
                        js ''Uploading '' @ name file @ js ''... ('' @ digits (i + 1) @ js ''/'' @
                        digits (length files) @ js '')''\<rparr>;
               (s2, r) = uploadFile file (server i) s1;
               s3 = (case r of
                       Inr v \<Rightarrow> showStatus (name file @ js '' uploaded successfully'') (js ''success'') s2
                     | Inl m \<Rightarrow>
                         emit [ConsoleError (js ''Upload error:'')]
                           (showStatus (js ''Failed to upload '' @ name file) (js ''error'') s2))
           in upload_loop server files (i + 1) s3
      else s)"
  by pat_completeness auto
termination
  by (relation "measure (\<lambda>(server, files, i, s). length files - i)") auto

declare upload_loop.simps [simp del]

definition uploadFiles ::
  "(nat \<Rightarrow> jsstring option fetched) \<Rightarrow> upfile list \<Rightarrow> admin \<Rightarrow> admin" where
  "uploadFiles server files s =
     (let s1 = s\<lparr>uploadProgress_display := js ''block''\<rparr>;
          s2 = upload_loop server files 0 s1;
          s3 = s2\<lparr>uploadProgress_display := js ''none'', progressFill_percent := 0,
                 fileInput_value := []\<rparr>
      in loadDocuments_begin s3)"

section \<open>Admin client: delete\<close>

definition showDeleteModal :: "jsstring \<Rightarrow> admin \<Rightarrow> admin" where
  "showDeleteModal filename s =
     s\<lparr>fileToDelete := Some filename, deleteFilename_text := filename,
       deleteModal_display := js ''flex''\<rparr>"

text \<open>The click handler of \<^verbatim>\<open>cancelDelete\<close>.\<close>

definition cancelDelete_click :: "admin \<Rightarrow> admin" where
  "cancelDelete_click s = s\<lparr>deleteModal_display := js ''none'', fileToDelete := None\<rparr>"

definition delete_request :: "jsstring option \<Rightarrow> jsstring option \<Rightarrow> request" where
  "delete_request tok target =
     \<lparr>http_method = js ''DELETE'', url = API_BASE @ js ''/documents/'' @ template_str target,
      headers = authHeaders tok, body = NoBody\<rparr>"

text \<open>
  The click handler of \<^verbatim>\<open>confirmDelete\<close> up to its \<^verbatim>\<open>await fetch\<close>: nothing happens
  without a target; otherwise the request is issued.
\<close>

definition confirmDelete_begin :: "admin \<Rightarrow> admin" where
  "confirmDelete_begin s =
     (if falsy_opt (fileToDelete s) then s
      else emit [Issued (delete_request (token s) (fileToDelete s))]
             (s\<lparr>awaiting_delete := awaiting_delete s + 1\<rparr>))"

text \<open>
  The rest of the handler once the request has settled: its \<^verbatim>\<open>try\<close> block throws (\<open>Inl\<close>,
  with the message) on a rejected request or a status that is not ok, and the body of
  the response is not read. \<^verbatim>\<open>fileToDelete\<close> is read again after the \<^verbatim>\<open>await\<close>, as the
  source does.
\<close>

definition confirmDelete_try :: "'a fetched \<Rightarrow> jsstring + unit" where
  "confirmDelete_try outcome =
     (case outcome of
        NetworkError m \<Rightarrow> Inl m
      | Response status json \<Rightarrow> if \<not> ok status then Inl (js ''Delete failed'') else Inr ())"

definition confirmDelete_resume :: "'a fetched \<Rightarrow> admin \<Rightarrow> admin" where
  "confirmDelete_resume outcome s =
     (let s1 = emit [Settled] (s\<lparr>awaiting_delete := awaiting_delete s - 1\<rparr>)
      in case confirmDelete_try outcome of
           Inr u \<Rightarrow>
             let s2 = showStatus (template_str (fileToDelete s1) @ js '' deleted successfully'')
                        (js ''success'') s1;
                 s3 = s2\<lparr>deleteModal_display := js ''none'', fileToDelete := None\<rparr>
             in loadDocuments_begin s3
         | Inl message \<Rightarrow>
             showStatus (js ''Failed to delete document'') (js ''error'')
               (emit [ConsoleError (js ''Delete error:'')] s1))"

section \<open>Admin client: the page as a state machine\<close>

text \<open>The click handler of \<^verbatim>\<open>logoutBtn\<close>.\<close>

definition logout_click :: "admin \<Rightarrow> admin" where
  "logout_click s =
     emit [Navigated (js ''/login'')]
       (s\<lparr>localStorage_token := None, location_href := js ''/login''\<rparr>)"

text \<open>
  What can happen to the page after its script has run: the user clicks the delete
  button of a row, cancels or confirms in the modal, clicks refresh or logout, chooses
  files or drops them on the upload area (the upload is run to its end, against a
  server), and a pending delete or listing request settles. A settlement with no
  request pending cannot happen and changes nothing. The handlers of the rebuild and
  status buttons write nothing of this state but the trace and are left out.
\<close>

datatype action =
    RowDelete jsstring
  | CancelClick
  | ConfirmClick
  | DeleteSettles "unit fetched"
  | RefreshClick
  | ListSettles "document list fetched"
  | LogoutClick
  | FilesChosen "nat \<Rightarrow> jsstring option fetched" "upfile list"
  | FilesDropped "nat \<Rightarrow> jsstring option fetched" "upfile list"

fun step :: "admin \<Rightarrow> action \<Rightarrow> admin" where
  "step s (RowDelete filename) = showDeleteModal filename s"
| "step s CancelClick = cancelDelete_click s"
| "step s ConfirmClick = confirmDelete_begin s"
| "step s (DeleteSettles outcome) =
     (if awaiting_delete s = 0 then s else confirmDelete_resume outcome s)"
| "step s RefreshClick = loadDocuments_begin s"
| "step s (ListSettles outcome) =
     (if awaiting_list s = 0 then s else loadDocuments_resume outcome s)"
| "step s LogoutClick = logout_click s"
| "step s (FilesChosen server files) =
     (if length files > 0 then uploadFiles server files s else s)"
| "step s (FilesDropped server files) = uploadFiles server files s"

definition run :: "admin \<Rightarrow> action list \<Rightarrow> admin" where
  "run s actions = foldl step s actions"

section \<open>Reading a trace\<close>

text \<open>The requests issued in a trace, in order.\<close>

fun requests :: "event list \<Rightarrow> request list" where
  "requests [] = []"
| "requests (Issued r # es) = r # requests es"
| "requests (e # es) = requests es"

text \<open>
  Requests that are awaited one at a time: with \<open>busy\<close> telling whether a request is
  in flight, none is issued while one is in flight, and only a request in flight
  settles.
\<close>

fun one_at_a_time :: "bool \<Rightarrow> event list \<Rightarrow> bool" where
  "one_at_a_time busy [] = True"
| "one_at_a_time busy (Issued r # es) = (\<not> busy \<and> one_at_a_time True es)"
| "one_at_a_time busy (Settled # es) = (busy \<and> one_at_a_time False es)"
| "one_at_a_time busy (e # es) = one_at_a_time busy es"

text \<open>Whether an upload request succeeds: a response with an ok status and a readable body.\<close>

definition upload_succeeds :: "jsstring option fetched \<Rightarrow> bool" where
  "upload_succeeds outcome =
     (case outcome of
        NetworkError m \<Rightarrow> False
      | Response status json \<Rightarrow> ok status \<and> (case json of Inl m \<Rightarrow> False | Inr v \<Rightarrow> True))"

text \<open>The events of the upload of one file: its request, the settlement, its banner.\<close>

definition upload_events :: "jsstring option \<Rightarrow> upfile \<Rightarrow> jsstring option fetched \<Rightarrow> event list" where
  "upload_events tok file outcome =
     [Issued (upload_request tok file), Settled] @
     (if upload_succeeds outcome
      then [Status (name file @ js '' uploaded successfully'') (js ''success'')]
      else [Status (js ''Failed to upload '' @ name file) (js ''error''),
            ConsoleError (js ''Upload error:'')])"



section \<open>HTML text\<close>

definition nl :: jsstring where
  "nl = [0x000A]"

definition dq :: jsstring where
  "dq = [0x0022]"

text \<open>
  \<^verbatim>\<open>escapeHtml\<close> of the chat client stores its argument as the text of a fresh element
  and reads the element's \<^verbatim>\<open>innerHTML\<close>. The DOM serialises a text node by replacing
  \<^verbatim>\<open>&\<close>, the no-break space U+00A0, \<^verbatim>\<open><\<close> and \<^verbatim>\<open>>\<close> by the references \<^verbatim>\<open>&amp;\<close>,
  \<^verbatim>\<open>&nbsp;\<close>, \<^verbatim>\<open>&lt;\<close> and \<^verbatim>\<open>&gt;\<close>; quotes are left as they are.
\<close>

definition escape_char :: "jschar \<Rightarrow> jsstring" where
  "escape_char c =
     (if c = 0x0026 then js ''&amp;''
      else if c = 0x00A0 then js ''&nbsp;''
      else if c = 0x003C then js ''&lt;''
      else if c = 0x003E then js ''&gt;''
      else [c])"

definition serialize_text :: "jsstring \<Rightarrow> jsstring" where
  "serialize_text s = concat (map escape_char s)"

definition escapeHtml :: "jsstring \<Rightarrow> jsstring" where
  "escapeHtml text = (if falsy text then [] else serialize_text text)"

text \<open>
  Unescaping, as the reader of the markup does it: the four references are replaced
  by their characters, from left to right.
\<close>

fun unescapeHtml :: "jsstring \<Rightarrow> jsstring" where
  "unescapeHtml [] = []"
| "unescapeHtml (c # cs) =
     (if prefix (js ''&amp;'') (c # cs) then 0x0026 # unescapeHtml (drop 4 cs)
      else if prefix (js ''&nbsp;'') (c # cs) then 0x00A0 # unescapeHtml (drop 5 cs)
      else if prefix (js ''&lt;'') (c # cs) then 0x003C # unescapeHtml (drop 3 cs)
      else if prefix (js ''&gt;'') (c # cs) then 0x003E # unescapeHtml (drop 3 cs)
      else c # unescapeHtml cs)"

text \<open>
  The text a piece of markup renders: what lies between \<^verbatim>\<open><\<close> and the next \<^verbatim>\<open>>\<close> is a
  tag and is dropped (\<open>in_tag\<close> tells whether a tag is being read), the rest is
  unescaped.
\<close>

fun strip_tags :: "bool \<Rightarrow> jsstring \<Rightarrow> jsstring" where
  "strip_tags in_tag [] = []"
| "strip_tags in_tag (c # cs) =
     (if in_tag then (if c = 0x003E then strip_tags False cs else strip_tags True cs)
      else if c = 0x003C then strip_tags True cs
      else c # strip_tags False cs)"


section \<open>Query clients: the answer and its sources\<close>

record source =
  src_type :: jsstring
  src_filename :: jsstring
  src_content :: "jsstring option"

record answer_data =
  answer :: jsstring
  sources :: "source list"
  processing_time :: rat

text \<open>
  \<^verbatim>\<open>x.toFixed(2)\<close>, on the exact value of the number and below \<open>10 ^ 21\<close> in absolute
  value: the nearest multiple of \<open>1 / 100\<close>, a tie going away from zero, printed with
  two decimals.
\<close>

definition toFixed2 :: "rat \<Rightarrow> jsstring" where
  "toFixed2 x =
     (let n = nat \<lfloor>\<bar>x\<bar> * 100 + 1 / 2\<rfloor>
      in (if x < 0 then js ''-'' else []) @ digits (n div 100) @ js ''.'' @
         [digit (n mod 100 div 10), digit (n mod 10)])"

text \<open>
  A value inside a template literal. \<open>native k\<close> is the text the browser prints for the
  member \<open>k\<close> of \<^verbatim>\<open>Object.prototype\<close>; it differs between browsers and is a parameter.
\<close>

definition value_str :: "(jsstring \<Rightarrow> jsstring) \<Rightarrow> jsvalue \<Rightarrow> jsstring" where
  "value_str native v =
     (case v of Str s \<Rightarrow> s | Undefined \<Rightarrow> js ''undefined'' | Inherited k \<Rightarrow> native k)"

text \<open>An element built by a client: its class, its id and its \<^verbatim>\<open>innerHTML\<close>.\<close>

datatype element = Element (className: jsstring) (element_id: jsstring) (innerHTML: jsstring)

text \<open>What a container holds: markup assigned to \<^verbatim>\<open>innerHTML\<close>, or appended elements.\<close>

datatype content = Html jsstring | Children "element list"

section \<open>Single-shot query client (app.js)\<close>

record page =
  queryInput_value :: jsstring
  submitBtn_disabled :: bool
  btnText_display :: jsstring
  btnLoading_display :: jsstring
  emptyState_display :: jsstring
  resultsSection_display :: jsstring
  answerContent_textContent :: jsstring
  processingTime_textContent :: jsstring
  sourcesContent :: content
  page_trace :: "event list"

text \<open>
  \<^verbatim>\<open>createSourceElement\<close>: the type label, the filename and the excerpt are put into the
  markup as they are.
\<close>

definition createSourceElement :: "(jsstring \<Rightarrow> jsstring) \<Rightarrow> source \<Rightarrow> nat \<Rightarrow> element" where
  "createSourceElement native source index =
     (let icon = getSourceIcon (src_type source);
          typeLabel = toUpperCase (src_type source);
          content =
            (if falsy_opt (src_content source) then []
             else js ''<div class='' @ dq @ js ''source-content'' @ dq @ js ''>'' @
                  template_str (src_content source) @ js ''</div>'')
      in Element (js ''source-item'') []
           (
            nl @
            js ''        <div class='' @ dq @ js ''source-icon'' @ dq @ js ''>'' @
            value_str native icon @ js ''</div>'' @ nl @
            js ''        <div class='' @ dq @ js ''source-info'' @ dq @ js ''>'' @ nl @
            js ''            <div>'' @ nl @
            js ''                <span class='' @ dq @ js ''source-type'' @ dq @ js ''>'' @
            typeLabel @ js ''</span>'' @ nl @
            js ''                <span class='' @ dq @ js ''source-filename'' @ dq @
            js ''>'' @ src_filename source @ js ''</span>'' @ nl @
            js ''            </div>'' @ nl @
            js ''            '' @ content @ nl @
            js ''        </div>'' @ nl @
            js ''    ''))"

definition displayResults :: "(jsstring \<Rightarrow> jsstring) \<Rightarrow> answer_data \<Rightarrow> page \<Rightarrow> page" where
  "displayResults native data s =
     (let s1 = s\<lparr>resultsSection_display := js ''block'',
                 answerContent_textContent := answer data,
                 processingTime_textContent := toFixed2 (processing_time data)\<rparr>;
          s2 = (if length (sources data) > 0
                then s1\<lparr>sourcesContent :=
                          Children (map (\<lambda>(source, index). createSourceElement native source (index + 1))
                                      (zip (sources data) [0..<length (sources data)]))\<rparr>
                else s1\<lparr>sourcesContent :=
                          Html (
                                js ''<p style='' @ dq @
                                js ''color: var(--text-secondary);'' @ dq @
                                js ''>No sources found</p>'')\<rparr>)
      in s2\<lparr>page_trace := page_trace s2 @ [Scroll]\<rparr>)"

definition query_request :: "jsstring \<Rightarrow> request" where
  "query_request question =
     \<lparr>http_method = js ''POST'', url = js ''/api'' @ js ''/query'',
      headers = [(js ''Content-Type'', js ''application/json'')],
      body = JsonQuery question 10\<rparr>"

text \<open>
  \<^verbatim>\<open>submitQuery\<close> up to its \<^verbatim>\<open>await fetch\<close>. The second component tells whether the
  handler is suspended on its request, or has returned.
\<close>

definition submitQuery_begin :: "page \<Rightarrow> page \<times> bool" where
  "submitQuery_begin s =
     (let question = trim (queryInput_value s)
      in if falsy question
         then (s\<lparr>page_trace := page_trace s @ [Alert (js ''Please enter a question'')]\<rparr>, False)
         else (s\<lparr>submitBtn_disabled := True,
                 btnText_display := js ''none'',
                 btnLoading_display := js ''inline-block'',
                 emptyState_display := js ''none'',
                 resultsSection_display := js ''none'',
                 page_trace := page_trace s @ [Issued (query_request question)]\<rparr>, True))"

text \<open>The \<^verbatim>\<open>try\<close> block once the request has settled: the exception's message, or the data.\<close>

definition submitQuery_try :: "answer_data fetched \<Rightarrow> jsstring + answer_data" where
  "submitQuery_try outcome =
     (case outcome of
        NetworkError m \<Rightarrow> Inl m
      | Response status json \<Rightarrow>
          if \<not> ok status then Inl (js ''Query failed'')
          else (case json of Inl m \<Rightarrow> Inl m | Inr data \<Rightarrow> Inr data))"

definition submitQuery_resume ::
  "(jsstring \<Rightarrow> jsstring) \<Rightarrow> answer_data fetched \<Rightarrow> page \<Rightarrow> page" where
  "submitQuery_resume native outcome s =
     (let s1 = s\<lparr>page_trace := page_trace s @ [Settled]\<rparr>;
          s2 = (case submitQuery_try outcome of
                  Inr data \<Rightarrow> displayResults native data s1
                | Inl message \<Rightarrow>
                    s1\<lparr>page_trace := page_trace s1 @
                         [ConsoleError (js ''Error:''),
                          Alert (js ''Failed to process query. Please try again.'')]\<rparr>)
      in s2\<lparr>submitBtn_disabled := False,
            btnText_display := js ''inline'',
            btnLoading_display := js ''none''\<rparr>)"

definition submitQuery :: "(jsstring \<Rightarrow> jsstring) \<Rightarrow> answer_data fetched \<Rightarrow> page \<Rightarrow> page" where
  "submitQuery native outcome s =
     (case submitQuery_begin s of
        (s1, False) \<Rightarrow> s1
      | (s1, True) \<Rightarrow> submitQuery_resume native outcome s1)"

section \<open>Chat query client\<close>

record turn =
  turn_question :: jsstring
  turn_answer :: jsstring
  turn_sources :: "source list"
  turn_timestamp :: nat

record chat =
  chatInput_value :: jsstring
  chatInput_height :: jsstring
  chatInput_disabled :: bool
  sendBtn_disabled :: bool
  chatContainer :: "element list"
  chatHistory :: "turn list"
  chat_trace :: "event list"

text \<open>\<^verbatim>\<open>p.match(/^\d+\./)\<close>: one or more decimal digits at the start, then a dot.\<close>

definition is_digit :: "jschar \<Rightarrow> bool" where
  "is_digit c \<longleftrightarrow> 0x0030 \<le> c \<and> c \<le> 0x0039"

definition is_list_item :: "jsstring \<Rightarrow> bool" where
  "is_list_item p \<longleftrightarrow>
     takeWhile is_digit p \<noteq> [] \<and> prefix [0x002E] (dropWhile is_digit p)"

text \<open>The function mapped over the paragraphs by \<^verbatim>\<open>formatAnswer\<close>.\<close>

definition format_paragraph :: "jsstring \<Rightarrow> jsstring" where
  "format_paragraph p0 =
     (let p = trim p0
      in if falsy p then []
         else if is_list_item p
         then js ''<div class='' @ dq @ js ''list-item'' @ dq @ js ''>'' @ escapeHtml p @ js ''</div>''
         else js ''<p>'' @ escapeHtml p @ js ''</p>'')"

definition formatAnswer :: "jsstring \<Rightarrow> jsstring" where
  "formatAnswer text =
     (if falsy text then []
      else let paragraphs = split text (nl @ nl)
           in concat (map format_paragraph paragraphs))"

definition source_tag :: "(jsstring \<Rightarrow> jsstring) \<Rightarrow> source \<Rightarrow> jsstring" where
  "source_tag native source =
     (let icon = getSourceIcon (src_type source)
      in
        nl @
        js ''            <div class='' @ dq @ js ''source-tag'' @ dq @ js '' title='' @ dq @
        escapeHtml (src_filename source) @ dq @ js ''>'' @ nl @
        js ''                '' @ value_str native icon @ js '' '' @
        escapeHtml (src_filename source) @ nl @
        js ''            </div>'' @ nl @
        js ''        '')"

definition createSourcesHTML :: "(jsstring \<Rightarrow> jsstring) \<Rightarrow> source list \<Rightarrow> jsstring" where
  "createSourcesHTML native srcs =
     (if length srcs = 0 then []
      else js ''<div class='' @ dq @ js ''sources-compact'' @ dq @ js ''>'' @
           js ''<p class='' @ dq @ js ''sources-label'' @ dq @ js ''>'' @ [0xD83D, 0xDCDA] @
           js '' Sources:</p>'' @
           js ''<div class='' @ dq @ js ''sources-list-compact'' @ dq @ js ''>'' @
           concat (map (source_tag native) (take 5 srcs)) @
           js ''</div></div>'')"

definition scrollToBottom :: "chat \<Rightarrow> chat" where
  "scrollToBottom s = s\<lparr>chat_trace := chat_trace s @ [Scroll]\<rparr>"

definition append_message :: "element \<Rightarrow> chat \<Rightarrow> chat" where
  "append_message messageDiv s = scrollToBottom (s\<lparr>chatContainer := chatContainer s @ [messageDiv]\<rparr>)"

definition addUserMessage :: "jsstring \<Rightarrow> chat \<Rightarrow> chat" where
  "addUserMessage text s =
     append_message
       (Element (js ''chat-message user-message'') []
          (
           nl @
           js ''        <div class='' @ dq @ js ''message-content'' @ dq @ js ''>'' @ nl @
           js ''            <div class='' @ dq @ js ''message-avatar user-avatar'' @ dq @
           js ''>'' @ [0xD83D, 0xDC64] @ js ''</div>'' @ nl @
           js ''            <div class='' @ dq @ js ''message-text'' @ dq @ js ''>'' @
           escapeHtml text @ js ''</div>'' @ nl @
           js ''        </div>'' @ nl @
           js ''    '')) s"

definition addAssistantMessage :: "(jsstring \<Rightarrow> jsstring) \<Rightarrow> answer_data \<Rightarrow> chat \<Rightarrow> chat" where
  "addAssistantMessage native data s =
     (let formattedAnswer = formatAnswer (answer data);
          sourcesHTML = (if length (sources data) > 0
                         then createSourcesHTML native (sources data) else [])
      in append_message
           (Element (js ''chat-message assistant-message'') []
              (
              nl @
              js ''        <div class='' @ dq @ js ''message-content'' @ dq @ js ''>'' @
              nl @
              js ''            <div class='' @ dq @ js ''message-avatar assistant-avatar'' @
              dq @ js ''>'' @ [0xD83E, 0xDD16] @ js ''</div>'' @ nl @
              js ''            <div class='' @ dq @ js ''message-text'' @ dq @ js ''>'' @
              nl @
              js ''                <div class='' @ dq @ js ''answer-text'' @ dq @ js ''>'' @
              formattedAnswer @ js ''</div>'' @ nl @
              js ''                '' @ sourcesHTML @ nl @
              js ''                <div class='' @ dq @ js ''message-meta'' @ dq @
              js ''>'' @ nl @
              js ''                    <small>'' @ [0x23F1, 0xFE0F] @ js '' '' @
              toFixed2 (processing_time data) @ js ''s</small>'' @ nl @
              js ''                </div>'' @ nl @
              js ''            </div>'' @ nl @
              js ''        </div>'' @ nl @
              js ''    '')) s)"

text \<open>\<open>now\<close> is what \<^verbatim>\<open>Date.now()\<close> returns. The id of the message is returned with the state.\<close>

definition addLoadingMessage :: "nat \<Rightarrow> chat \<Rightarrow> chat \<times> jsstring" where
  "addLoadingMessage now s =
     (let loadingId = js ''loading-'' @ digits now
      in (append_message
            (Element (js ''chat-message assistant-message'') loadingId
              (
              nl @
              js ''        <div class='' @ dq @ js ''message-content'' @ dq @ js ''>'' @
              nl @
              js ''            <div class='' @ dq @ js ''message-avatar assistant-avatar'' @
              dq @ js ''>'' @ [0xD83E, 0xDD16] @ js ''</div>'' @ nl @
              js ''            <div class='' @ dq @ js ''message-text'' @ dq @ js ''>'' @
              nl @
              js ''                <div class='' @ dq @ js ''typing-indicator'' @ dq @
              js ''>'' @ nl @
              js ''                    <span></span>'' @ nl @
              js ''                    <span></span>'' @ nl @
              js ''                    <span></span>'' @ nl @
              js ''                </div>'' @ nl @
              js ''            </div>'' @ nl @
              js ''        </div>'' @ nl @
              js ''    '')) s,
          loadingId))"

text \<open>\<^verbatim>\<open>removeLoadingMessage\<close>: the first element with the id, if there is one, is removed.\<close>

fun remove_id :: "jsstring \<Rightarrow> element list \<Rightarrow> element list" where
  "remove_id i [] = []"
| "remove_id i (e # es) = (if element_id e = i then es else e # remove_id i es)"

definition removeLoadingMessage :: "jsstring \<Rightarrow> chat \<Rightarrow> chat" where
  "removeLoadingMessage loadingId s = s\<lparr>chatContainer := remove_id loadingId (chatContainer s)\<rparr>"

definition addErrorMessage :: "jsstring \<Rightarrow> chat \<Rightarrow> chat" where
  "addErrorMessage text s =
     append_message
       (Element (js ''chat-message assistant-message error-message'') []
          (
           nl @
           js ''        <div class='' @ dq @ js ''message-content'' @ dq @ js ''>'' @ nl @
           js ''            <div class='' @ dq @ js ''message-avatar assistant-avatar'' @
           dq @ js ''>'' @ [0x26A0, 0xFE0F] @ js ''</div>'' @ nl @
           js ''            <div class='' @ dq @ js ''message-text'' @ dq @ js ''>'' @ nl @
           js ''                <div class='' @ dq @ js ''answer-text'' @ dq @ js ''>'' @
           escapeHtml text @ js ''</div>'' @ nl @
           js ''            </div>'' @ nl @
           js ''        </div>'' @ nl @
           js ''    '')) s"

text \<open>
  The welcome placeholder is the element of class \<^verbatim>\<open>welcome-message\<close>; the first one
  is removed.
\<close>

fun remove_welcome :: "element list \<Rightarrow> element list" where
  "remove_welcome [] = []"
| "remove_welcome (e # es) =
     (if className e = js ''welcome-message'' then es else e # remove_welcome es)"

text \<open>
  \<^verbatim>\<open>sendMessage\<close> up to its \<^verbatim>\<open>await fetch\<close>. A suspended handler keeps its question and
  the id of its loading message. The console lines are recorded by their first
  argument.
\<close>

definition sendMessage_begin :: "nat \<Rightarrow> chat \<Rightarrow> chat \<times> (jsstring \<times> jsstring) option" where
  "sendMessage_begin now s =
     (let question = trim (chatInput_value s);
          s1 = s\<lparr>chat_trace := chat_trace s @ [ConsoleLog (js ''Sending message:'')]\<rparr>
      in if falsy question
         then (s1\<lparr>chat_trace := chat_trace s1 @ [ConsoleLog (js ''Empty question, ignoring'')]\<rparr>,
               None)
         else let s2 = s1\<lparr>chatContainer := remove_welcome (chatContainer s1)\<rparr>;
                  s3 = addUserMessage question s2;
                  s4 = s3\<lparr>chatInput_value := [], chatInput_height := js ''auto''\<rparr>;
                  (s5, loadingId) = addLoadingMessage now s4;
                  s6 = s5\<lparr>sendBtn_disabled := True, chatInput_disabled := True\<rparr>
              in (s6\<lparr>chat_trace := chat_trace s6 @
                        [ConsoleLog (js ''Calling API...''), Issued (query_request question)]\<rparr>,
                  Some (question, loadingId)))"

text \<open>
  The \<^verbatim>\<open>try\<close> block once the request has settled, up to the parsed data: the console
  lines it writes, and the message of the exception it throws (the status is part of
  it) or the data.
\<close>

definition sendMessage_try :: "answer_data fetched \<Rightarrow> event list \<times> (jsstring + answer_data)" where
  "sendMessage_try outcome =
     (case outcome of
        NetworkError m \<Rightarrow> ([], Inl m)
      | Response status json \<Rightarrow>
          if \<not> ok status
          then ([ConsoleLog (js ''API response status:''), ConsoleError (js ''API error:'')],
                Inl (js ''Query failed: '' @ digits status))
          else (case json of
                  Inl m \<Rightarrow> ([ConsoleLog (js ''API response status:'')], Inl m)
                | Inr data \<Rightarrow>
                    ([ConsoleLog (js ''API response status:''),
                      ConsoleLog (js ''API response data:'')], Inr data)))"

text \<open>\<open>now\<close> is the time \<^verbatim>\<open>new Date()\<close> reads when the turn is saved.\<close>

definition sendMessage_resume ::
  "(jsstring \<Rightarrow> jsstring) \<Rightarrow> jsstring \<times> jsstring \<Rightarrow> answer_data fetched \<Rightarrow> nat \<Rightarrow> chat \<Rightarrow> chat" where
  "sendMessage_resume native saved outcome now s =
     (let (question, loadingId) = saved;
          (console, result) = sendMessage_try outcome;
          s1 = s\<lparr>chat_trace := chat_trace s @ Settled # console\<rparr>;
          s2 = (case result of
                  Inr data \<Rightarrow>
                    let s3 = removeLoadingMessage loadingId s1;
                        s4 = addAssistantMessage native data s3
                    in s4\<lparr>chatHistory := chatHistory s4 @
                            [\<lparr>turn_question = question, turn_answer = answer data,
                              turn_sources = sources data, turn_timestamp = now\<rparr>]\<rparr>
                | Inl message \<Rightarrow>
                    let s3 = s1\<lparr>chat_trace := chat_trace s1 @ [ConsoleError (js ''Error:'')]\<rparr>;
                        s4 = removeLoadingMessage loadingId s3
                    in addErrorMessage (js ''Failed to process query: '' @ message) s4);
          s5 = s2\<lparr>sendBtn_disabled := False, chatInput_disabled := False\<rparr>
      in s5\<lparr>chat_trace := chat_trace s5 @ [Focus]\<rparr>)"

definition sendMessage ::
  "(jsstring \<Rightarrow> jsstring) \<Rightarrow> nat \<Rightarrow> answer_data fetched \<Rightarrow> nat \<Rightarrow> chat \<Rightarrow> chat" where
  "sendMessage native now outcome now' s =
     (case sendMessage_begin now s of
        (s1, None) \<Rightarrow> s1
      | (s1, Some saved) \<Rightarrow> sendMessage_resume native saved outcome now' s1)"

section \<open>The interaction state of the query clients\<close>

text \<open>
  The client is pending while its submit control is disabled, and idle otherwise.
\<close>

datatype ui_state = Idle | Pending

definition page_state :: "page \<Rightarrow> ui_state" where
  "page_state s = (if submitBtn_disabled s then Pending else Idle)"

definition chat_state :: "chat \<Rightarrow> ui_state" where
  "chat_state s = (if sendBtn_disabled s then Pending else Idle)"

text \<open>The blocking notices of a trace.\<close>

fun alerts :: "event list \<Rightarrow> jsstring list" where
  "alerts [] = []"
| "alerts (Alert m # es) = m # alerts es"
| "alerts (e # es) = alerts es"



section \<open>Facts about strings\<close>

lemma unat_of_char: "unat (of_char c :: 16 word) = of_char c"
proof -
  have "(of_char c :: 16 word) = of_nat (of_char c)"
    by (simp add: of_nat_of_char)
  moreover have "(of_char c :: nat) < 2 ^ 16"
    by (rule less_trans [OF nat_of_char_less_256]) simp
  ultimately show ?thesis
    by (simp add: unat_of_nat)
qed

lemma of_char_word_eq_iff: "(of_char c :: 16 word) = of_char d \<longleftrightarrow> c = d"
proof
  assume "(of_char c :: 16 word) = of_char d"
  then have "unat (of_char c :: 16 word) = unat (of_char d :: 16 word)" by simp
  then show "c = d" by (simp add: unat_of_char)
qed simp

lemma js_eq_iff: "js a = js b \<longleftrightarrow> a = b"
  unfolding js_def
  by (rule inj_map_eq_map) (simp add: inj_on_def of_char_word_eq_iff)

lemma includes_iff_sublist: "includes_str s sub \<longleftrightarrow> sublist sub s"
  by (induction s) (simp_all add: sublist_Cons_right)

lemma js_append: "js (a @ b) = js a @ js b"
  by (simp add: js_def)

section \<open>Facts about numbers\<close>

lemma digits_lt10: "n < 10 \<Longrightarrow> digits n = [digit n]"
  by (simp add: digits.simps)

lemma digits_ge10: "10 \<le> n \<Longrightarrow> digits n = digits (n div 10) @ [digit (n mod 10)]"
  by (subst digits.simps) simp

lemma floor_rat_numeral_div: "\<lfloor>(numeral a :: rat) / numeral b\<rfloor> = numeral a div numeral b"
  by (metis floor_divide_of_int_eq of_int_numeral)

lemma floor_log_exact:
  assumes "0 < bytes"
  shows "floor_log bytes 1024 = Fin (of_int \<lfloor>ln (real_of_int bytes) / ln 1024\<rfloor>)"
proof -
  have pos: "0 < nat bytes" using assms by simp
  have "floorlog 1024 (nat bytes) = nat \<lfloor>log 1024 (real (nat bytes))\<rfloor> + 1"
    using pos by (simp add: floorlog_def)
  moreover have "0 \<le> \<lfloor>log 1024 (real (nat bytes))\<rfloor>"
    using pos by simp
  moreover have "log 1024 (real (nat bytes)) = ln (real_of_int bytes) / ln 1024"
    using assms by (simp add: log_def)
  ultimately show ?thesis
    using assms by (simp add: floor_log_def)
qed

lemma floor_log_neg: "bytes < 0 \<Longrightarrow> floor_log bytes k = NaN"
  by (simp add: floor_log_def)

lemma element_str_nat:
  "element_str xs (Fin (of_nat n)) = (if n < length xs then xs ! n else js ''undefined'')"
  by (simp add: element_str_def)


lemma floor_log_between:
  assumes "1024 ^ n \<le> bytes" "bytes < 1024 ^ Suc n"
  shows "floor_log bytes 1024 = Fin (of_nat n)"
proof -
  have pos: "0 < bytes"
    using assms(1) by (rule less_le_trans [rotated]) simp
  have "floorlog 1024 (nat bytes) \<le> Suc n"
    using assms(2) pos by (intro floorlog_leI) (simp_all add: nat_less_iff)
  moreover have "Suc n \<le> floorlog 1024 (nat bytes)"
    using assms(1) pos by (intro floorlog_geI) (simp_all add: le_nat_iff)
  ultimately have "floorlog 1024 (nat bytes) = Suc n" by simp
  then show ?thesis
    using pos by (simp add: floor_log_def)
qed

lemma formatFileSize_Fin:
  assumes "bytes \<noteq> 0" "floor_log bytes 1024 = Fin (of_nat n)"
  shows "formatFileSize bytes =
           number_str (Fin (of_int \<lfloor>(of_int bytes :: rat) / 1024 ^ n * 100 + 1 / 2\<rfloor> / 100)) @ js '' '' @
           element_str [js ''Bytes'', js ''KB'', js ''MB'', js ''GB''] (Fin (of_nat n))"
  using assms by (simp add: formatFileSize_def)

lemma formatFileSize_NaN:
  assumes "bytes < 0"
  shows "formatFileSize bytes = js ''NaN undefined''"
proof -
  have "js ''NaN undefined'' = js ''NaN'' @ js '' '' @ js ''undefined''"
    by (simp add: js_def)
  then show ?thesis
    using assms by (simp add: formatFileSize_def floor_log_def number_str_def element_str_def)
qed

lemmas number_str_eval =
  number_str_def digits_lt10 digits_ge10 digit_def js_def floor_rat_numeral_div

section \<open>Badge mapping\<close>

text \<open>
  C8. \<^verbatim>\<open>getBadgeClass\<close> maps \<^verbatim>\<open>.pdf\<close> to the pdf badge, \<^verbatim>\<open>.docx\<close> and \<^verbatim>\<open>.doc\<close> to the
  word badge, \<^verbatim>\<open>.xlsx\<close> and \<^verbatim>\<open>.xls\<close> to the excel badge, and every other extension
  string to the pdf badge: there is always a badge.
\<close>

theorem getBadgeClass_mapping:
  "getBadgeClass (js ''.pdf'') = js ''badge-pdf'' \<and>
   getBadgeClass (js ''.docx'') = js ''badge-word'' \<and>
   getBadgeClass (js ''.doc'') = js ''badge-word'' \<and>
   getBadgeClass (js ''.xlsx'') = js ''badge-excel'' \<and>
   getBadgeClass (js ''.xls'') = js ''badge-excel'' \<and>
   (\<forall>t. t \<notin> {js ''.pdf'', js ''.docx'', js ''.doc'', js ''.xlsx'', js ''.xls''} \<longrightarrow>
        getBadgeClass t = js ''badge-pdf'')"
  by (simp add: getBadgeClass_def js_eq_iff)

theorem getBadgeClass_mapping_witness:
  "js ''.txt'' \<notin> {js ''.pdf'', js ''.docx'', js ''.doc'', js ''.xlsx'', js ''.xls''} \<and>
   getBadgeClass (js ''.txt'') = js ''badge-pdf'' \<and>
   getBadgeClass (js ''.doc'') = js ''badge-word''"
proof -
  have out: "js ''.txt'' \<notin> {js ''.pdf'', js ''.docx'', js ''.doc'', js ''.xlsx'', js ''.xls''}"
    by (simp add: js_eq_iff)
  from getBadgeClass_mapping have
    "\<forall>t. t \<notin> {js ''.pdf'', js ''.docx'', js ''.doc'', js ''.xlsx'', js ''.xls''} \<longrightarrow>
        getBadgeClass t = js ''badge-pdf''"
    and "getBadgeClass (js ''.doc'') = js ''badge-word''"
    by blast+
  with out show ?thesis by blast
qed

section \<open>File sizes\<close>

text \<open>
  C7. \<^verbatim>\<open>formatFileSize\<close> prints 0 as \<^verbatim>\<open>0 Bytes\<close>, 1024 as \<^verbatim>\<open>1 KB\<close>, 1536 as \<^verbatim>\<open>1.5 KB\<close>
  and 1048576 as \<^verbatim>\<open>1 MB\<close>; a size between \<open>1024 ^ n\<close> and \<open>1024 ^ (n + 1)\<close>, for
  \<open>n\<close> below 4, is divided by \<open>1024 ^ n\<close>, rounded to two decimals and followed by the
  \<open>n\<close>-th of the units Bytes, KB, MB, GB.
\<close>

theorem formatFileSize_examples:
  "formatFileSize 0 = js ''0 Bytes'' \<and>
   formatFileSize 1024 = js ''1 KB'' \<and>
   formatFileSize 1536 = js ''1.5 KB'' \<and>
   formatFileSize 1048576 = js ''1 MB'' \<and>
   (\<forall>bytes n. n < 4 \<and> 1024 ^ n \<le> bytes \<and> bytes < 1024 ^ Suc n \<longrightarrow>
      formatFileSize bytes =
        number_str (Fin (of_int \<lfloor>(of_int bytes :: rat) / 1024 ^ n * 100 + 1 / 2\<rfloor> / 100)) @ js '' '' @
        [js ''Bytes'', js ''KB'', js ''MB'', js ''GB''] ! n)"
proof (intro conjI allI impI)
  show "formatFileSize 0 = js ''0 Bytes''"
    by (simp add: formatFileSize_def)
next
  have "floor_log 1024 1024 = Fin (of_nat 1)"
    by (rule floor_log_between) simp_all
  then have "formatFileSize 1024 = number_str (Fin 1) @ js '' '' @ js ''KB''"
    by (subst formatFileSize_Fin [where n = 1]) (simp_all add: element_str_def floor_rat_numeral_div)
  then show "formatFileSize 1024 = js ''1 KB''"
    by (simp add: number_str_eval)
next
  have "floor_log 1536 1024 = Fin (of_nat 1)"
    by (rule floor_log_between) simp_all
  then have "formatFileSize 1536 = number_str (Fin (3 / 2)) @ js '' '' @ js ''KB''"
    by (subst formatFileSize_Fin [where n = 1]) (simp_all add: element_str_def floor_rat_numeral_div)
  then show "formatFileSize 1536 = js ''1.5 KB''"
    by (simp add: number_str_eval)
next
  have "floor_log 1048576 1024 = Fin (of_nat 2)"
    by (rule floor_log_between) simp_all
  then have "formatFileSize 1048576 = number_str (Fin 1) @ js '' '' @ js ''MB''"
    by (subst formatFileSize_Fin [where n = 2]) (simp_all add: element_str_def floor_rat_numeral_div)
  then show "formatFileSize 1048576 = js ''1 MB''"
    by (simp add: number_str_eval)
next
  fix bytes :: int and n :: nat
  assume h: "n < 4 \<and> 1024 ^ n \<le> bytes \<and> bytes < 1024 ^ Suc n"
  then have fl: "floor_log bytes 1024 = Fin (of_nat n)"
    by (intro floor_log_between) simp_all
  have "0 < bytes"
    using h by (intro less_le_trans [of 0 "1024 ^ n" bytes]) simp_all
  then have "bytes \<noteq> 0" by simp
  from formatFileSize_Fin [OF this fl] h
  show "formatFileSize bytes =
        number_str (Fin (of_int \<lfloor>(of_int bytes :: rat) / 1024 ^ n * 100 + 1 / 2\<rfloor> / 100)) @ js '' '' @
        [js ''Bytes'', js ''KB'', js ''MB'', js ''GB''] ! n"
    by (simp add: element_str_nat)
qed

theorem formatFileSize_examples_witness:
  "(2::nat) < 4 \<and> (1024::int) ^ 2 \<le> 1179648 \<and> (1179648::int) < 1024 ^ Suc 2 \<and>
   formatFileSize 1179648 = js ''1.13 MB''"
proof -
  have h: "(2::nat) < 4 \<and> (1024::int) ^ 2 \<le> 1179648 \<and> (1179648::int) < 1024 ^ Suc 2"
    by simp
  with formatFileSize_examples have
    "formatFileSize 1179648 =
        number_str (Fin (of_int \<lfloor>(of_int 1179648 :: rat) / 1024 ^ 2 * 100 + 1 / 2\<rfloor> / 100)) @ js '' '' @
        [js ''Bytes'', js ''KB'', js ''MB'', js ''GB''] ! 2"
    by blast
  then have "formatFileSize 1179648 = js ''1.13 MB''"
    by (simp add: number_str_eval)
  with h show ?thesis by blast
qed

section \<open>Source icons\<close>

lemma getSourceIcon_fallback:
  assumes "type \<noteq> js ''pdf''" "type \<noteq> js ''excel''" "type \<notin> set Object_prototype"
  shows "getSourceIcon type = Str icon_word"
  using assms
  by (simp add: getSourceIcon_def get_property_def icons_def truthy_def falsy_def icon_word_def)

text \<open>
  C10 claims the word icon for every type string other than \<^verbatim>\<open>pdf\<close> and \<^verbatim>\<open>excel\<close>. For
  the type \<^verbatim>\<open>constructor\<close> the lookup finds the inherited member, which is truthy, and
  \<^verbatim>\<open>getSourceIcon\<close> returns it: not the word icon.
\<close>

theorem getSourceIcon_constructor:
  "js ''constructor'' \<noteq> js ''pdf'' \<and> js ''constructor'' \<noteq> js ''excel'' \<and>
   getSourceIcon (js ''constructor'') = Inherited (js ''constructor'') \<and>
   getSourceIcon (js ''constructor'') \<noteq> Str icon_word"
  by (simp add: getSourceIcon_def get_property_def icons_def truthy_def Object_prototype_def
      js_eq_iff)

section \<open>Facts about the admin handlers\<close>

lemma emit_simps [simp]:
  "trace (emit es s) = trace s @ es"
  "token (emit es s) = token s"
  "localStorage_token (emit es s) = localStorage_token s"
  "location_href (emit es s) = location_href s"
  "documentsTable (emit es s) = documentsTable s"
  "fileToDelete (emit es s) = fileToDelete s"
  "awaiting_list (emit es s) = awaiting_list s"
  "awaiting_delete (emit es s) = awaiting_delete s"
  by (simp_all add: emit_def)

lemma failed_message_has_no_401:
  "\<not> includes_str (js ''Failed to load documents'') (js ''401'')"
  by (simp add: js_def)

lemma uploadFile_trace:
  "trace (fst (uploadFile file outcome s)) = trace s @ [Issued (upload_request (token s) file), Settled]"
  by (simp add: uploadFile_def Let_def split: fetched.splits sum.splits)

lemma uploadFile_result:
  "isl (snd (uploadFile file outcome s)) \<longleftrightarrow> \<not> upload_succeeds outcome"
  by (simp add: uploadFile_def upload_succeeds_def Let_def split: fetched.splits sum.splits)

lemma uploadFile_state:
  "fst (uploadFile file outcome s) = emit [Issued (upload_request (token s) file), Settled] s"
  by (simp add: uploadFile_def Let_def split: fetched.splits sum.splits)


text \<open>One iteration of the upload loop, as a state transformer.\<close>

lemma upload_loop_step:
  assumes "i < length files"
  shows "upload_loop server files i s =
           upload_loop server files (Suc i)
             (emit (upload_events (token s) (files ! i) (server i))
                (s\<lparr>progressFill_percent := (of_nat (i + 1) / of_nat (length files)) * 100,
                   uploadStatus_text :=
                     js ''Uploading '' @ name (files ! i) @ js ''... ('' @ digits (i + 1) @ js ''/'' @
                     digits (length files) @ js '')''\<rparr>))"
proof -
  let ?s1 = "s\<lparr>progressFill_percent := (of_nat (i + 1) / of_nat (length files)) * 100,
                uploadStatus_text :=
                  js ''Uploading '' @ name (files ! i) @ js ''... ('' @ digits (i + 1) @ js ''/'' @
                  digits (length files) @ js '')''\<rparr>"
  obtain s2 r where u: "uploadFile (files ! i) (server i) ?s1 = (s2, r)"
    by (cases "uploadFile (files ! i) (server i) ?s1")
  have s2: "s2 = emit [Issued (upload_request (token s) (files ! i)), Settled] ?s1"
    using uploadFile_state [of "files ! i" "server i" ?s1] u by simp
  have r: "isl r \<longleftrightarrow> \<not> upload_succeeds (server i)"
    using uploadFile_result [of "files ! i" "server i" ?s1] u by simp
  show ?thesis
  proof (cases r)
    case (Inl m)
    with r have "\<not> upload_succeeds (server i)" by simp
    with assms u s2 Inl show ?thesis
      by (subst upload_loop.simps) (simp add: upload_events_def showStatus_def emit_def Let_def)
  next
    case (Inr v)
    with r have "upload_succeeds (server i)" by simp
    with assms u s2 Inr show ?thesis
      by (subst upload_loop.simps) (simp add: upload_events_def showStatus_def emit_def Let_def)
  qed
qed

lemma upload_loop_done: "\<not> i < length files \<Longrightarrow> upload_loop server files i s = s"
  by (subst upload_loop.simps) simp

lemma upload_loop_trace:
  "trace (upload_loop server files i s) =
     trace s @ concat (map (\<lambda>j. upload_events (token s) (files ! j) (server j)) [i..<length files])"
proof (induction "length files - i" arbitrary: i s)
  case 0
  then show ?case by (simp add: upload_loop_done)
next
  case (Suc n)
  then have i: "i < length files" and n: "n = length files - Suc i" by simp_all
  show ?case
    by (simp add: upload_loop_step [OF i] Suc.hyps(1) [OF n] upt_conv_Cons [OF i])
qed

lemma upload_loop_shape:
  "\<exists>p u t. upload_loop server files i s =
             s\<lparr>progressFill_percent := p, uploadStatus_text := u, trace := t\<rparr>"
proof (induction "length files - i" arbitrary: i s)
  case 0
  then have "upload_loop server files i s = s" by (simp add: upload_loop_done)
  then have "upload_loop server files i s =
      s\<lparr>progressFill_percent := progressFill_percent s, uploadStatus_text := uploadStatus_text s,
        trace := trace s\<rparr>"
    by simp
  then show ?case by blast
next
  case (Suc n)
  then have i: "i < length files" and n: "n = length files - Suc i" by simp_all
  let ?s' = "emit (upload_events (token s) (files ! i) (server i))
                (s\<lparr>progressFill_percent := (of_nat (i + 1) / of_nat (length files)) * 100,
                   uploadStatus_text :=
                     js ''Uploading '' @ name (files ! i) @ js ''... ('' @ digits (i + 1) @ js ''/'' @
                     digits (length files) @ js '')''\<rparr>)"
  from Suc.hyps(1) [OF n, of ?s'] obtain p u t where
    "upload_loop server files (Suc i) ?s' =
       ?s'\<lparr>progressFill_percent := p, uploadStatus_text := u, trace := t\<rparr>"
    by blast
  then have "upload_loop server files i s =
       s\<lparr>progressFill_percent := p, uploadStatus_text := u, trace := t\<rparr>"
    by (simp add: upload_loop_step [OF i] emit_def)
  then show ?case by blast
qed

lemma upload_loop_keeps:
  "token (upload_loop server files i s) = token s"
  "fileToDelete (upload_loop server files i s) = fileToDelete s"
  "localStorage_token (upload_loop server files i s) = localStorage_token s"
  "location_href (upload_loop server files i s) = location_href s"
  "documentsTable (upload_loop server files i s) = documentsTable s"
  "awaiting_list (upload_loop server files i s) = awaiting_list s"
  "awaiting_delete (upload_loop server files i s) = awaiting_delete s"
  using upload_loop_shape [of server files i s] by auto

lemma requests_append: "requests (xs @ ys) = requests xs @ requests ys"
  by (induction xs rule: requests.induct) simp_all

lemma requests_upload_events: "requests (upload_events tok file outcome) = [upload_request tok file]"
  by (simp add: upload_events_def)

lemma requests_upload_loop_events:
  "requests (concat (map (\<lambda>j. upload_events tok (files ! j) (server j)) [i..<length files]))
     = map (upload_request tok) (drop i files)"
proof (induction "length files - i" arbitrary: i)
  case 0
  then show ?case by simp
next
  case (Suc n)
  then have i: "i < length files" and n: "n = length files - Suc i" by simp_all
  show ?case
    by (simp add: upt_conv_Cons [OF i] requests_append requests_upload_events Suc.hyps(1) [OF n]
        Cons_nth_drop_Suc [OF i, symmetric])
qed

lemma one_at_a_time_upload_events:
  "one_at_a_time False (upload_events tok file outcome @ es) = one_at_a_time False es"
  by (simp add: upload_events_def)

lemma one_at_a_time_upload_loop_events:
  "one_at_a_time False
     (concat (map (\<lambda>j. upload_events tok (files ! j) (server j)) [i..<length files]) @ es)
     = one_at_a_time False es"
proof (induction "length files - i" arbitrary: i)
  case 0
  then show ?case by simp
next
  case (Suc n)
  then have i: "i < length files" and n: "n = length files - Suc i" by simp_all
  show ?case
    by (simp add: upt_conv_Cons [OF i] one_at_a_time_upload_events Suc.hyps(1) [OF n])
qed

lemma count_settled_upload_events:
  "length (filter (\<lambda>e. e = Settled) (upload_events tok file outcome)) = 1"
  by (simp add: upload_events_def)

lemma count_settled_upload_loop_events:
  "length (filter (\<lambda>e. e = Settled)
     (concat (map (\<lambda>j. upload_events tok (files ! j) (server j)) [i..<length files])))
     = length files - i"
proof (induction "length files - i" arbitrary: i)
  case 0
  then show ?case by simp
next
  case (Suc n)
  then have i: "i < length files" and n: "n = length files - Suc i" by simp_all
  show ?case
    using i by (simp add: upt_conv_Cons [OF i] Suc.hyps(1) [OF n] count_settled_upload_events)
qed

section \<open>Upload\<close>

text \<open>
  C4. For every list of files and whatever the server answers, \<^verbatim>\<open>uploadFiles\<close> issues
  exactly one upload request per file, in the order of the list, each settled before
  the next is issued (no two in flight at once); a failing request does not end the
  loop; and the listing request of the refresh is issued exactly once, as the last
  event, after the request of the last file has settled.
\<close>

theorem uploadFiles_sequential:
  "\<exists>evs. trace (uploadFiles server files s) =
            trace s @ evs @ [Issued (documents_request (token s))] \<and>
         requests evs = map (upload_request (token s)) files \<and>
         length (filter (\<lambda>e. e = Settled) evs) = length files \<and>
         one_at_a_time False (evs @ [Issued (documents_request (token s))]) \<and>
         documents_request (token s) \<notin> set (requests evs) \<and>
         evs = concat (map (\<lambda>j. upload_events (token s) (files ! j) (server j)) [0..<length files])"
proof -
  let ?evs = "concat (map (\<lambda>j. upload_events (token s) (files ! j) (server j)) [0..<length files])"
  have "trace (uploadFiles server files s) = trace s @ ?evs @ [Issued (documents_request (token s))]"
    by (simp add: uploadFiles_def loadDocuments_begin_def upload_loop_trace upload_loop_keeps)
  moreover have "requests ?evs = map (upload_request (token s)) files"
    using requests_upload_loop_events [of "token s" files server 0] by simp
  moreover have "length (filter (\<lambda>e. e = Settled) ?evs) = length files"
    using count_settled_upload_loop_events [of "token s" files server 0] by simp
  moreover have "one_at_a_time False (?evs @ [Issued (documents_request (token s))])"
    by (simp add: one_at_a_time_upload_loop_events)
  moreover have "documents_request (token s) \<notin> set (requests ?evs)"
    using requests_upload_loop_events [of "token s" files server 0]
    by (auto simp: upload_request_def documents_request_def js_eq_iff)
  ultimately show ?thesis by blast
qed

section \<open>Listing and page load\<close>

lemma loadDocuments_not_ok:
  assumes "\<not> ok status"
  shows "loadDocuments (Response status json) s =
           (emit [Issued (documents_request (token s)), Settled,
                  ConsoleError (js ''Error loading documents:'')] s)
             \<lparr>documentsTable := LoadFailed\<rparr>"
  using assms
  by (simp add: loadDocuments_def loadDocuments_resume_def loadDocuments_begin_def
      loadDocuments_try_def failed_message_has_no_401 emit_def)

lemma loadDocuments_message_401:
  assumes "includes_str m (js ''401'')"
  shows "localStorage_token (loadDocuments (NetworkError m) s) = None \<and>
         location_href (loadDocuments (NetworkError m) s) = js ''/login''"
  using assms
  by (simp add: loadDocuments_def loadDocuments_resume_def loadDocuments_begin_def
      loadDocuments_try_def)

text \<open>
  C1 claims that a 401 from the listing call clears the stored token and navigates to
  the login path. The exception thrown for a status that is not ok carries the fixed
  message \<^verbatim>\<open>Failed to load documents\<close>, in which the \<^verbatim>\<open>catch\<close> block looks for \<^verbatim>\<open>401\<close>: for
  a 401 response the token stays where it is, the location does not change, and only
  the inline error is shown.
\<close>

theorem loadDocuments_401:
  "localStorage_token (loadDocuments (Response 401 json) s) = localStorage_token s \<and>
   location_href (loadDocuments (Response 401 json) s) = location_href s \<and>
   documentsTable (loadDocuments (Response 401 json) s) = LoadFailed \<and>
   trace (loadDocuments (Response 401 json) s) =
     trace s @ [Issued (documents_request (token s)), Settled,
                ConsoleError (js ''Error loading documents:'')]"
proof -
  have "\<not> ok 401" by (simp add: ok_def)
  then show ?thesis by (simp add: loadDocuments_not_ok)
qed

text \<open>
  C3 claims that no admin request is issued while the stored token is absent. With
  nothing stored, the script assigns the login path to the location and then still
  calls \<^verbatim>\<open>loadDocuments\<close>: the listing request is issued, with the header
  \<^verbatim>\<open>Authorization: Bearer null\<close>.
\<close>

theorem admin_script_without_token:
  "trace (admin_script (fresh_page None)) =
     [Navigated (js ''/login''), Issued (documents_request None)] \<and>
   localStorage_token (admin_script (fresh_page None)) = None \<and>
   url (documents_request None) = js ''/api/admin/documents'' \<and>
   headers (documents_request None) = [(js ''Authorization'', js ''Bearer null'')]"
  by (simp add: admin_script_def fresh_page_def falsy_opt_def loadDocuments_begin_def
      documents_request_def authHeaders_def template_str_def API_BASE_def emit_def
      js_append [symmetric])

section \<open>Delete\<close>

lemma requests_snoc_other [simp]:
  "requests [Settled] = []"
  "requests [Status m t] = []"
  "requests [ConsoleError m] = []"
  "requests [Navigated u] = []"
  by simp_all

lemma uploadFiles_requests:
  "requests (trace (uploadFiles server files s)) =
     requests (trace s) @ map (upload_request (token s)) files @ [documents_request (token s)]"
  using requests_upload_loop_events [of "token s" files server 0]
  by (simp add: uploadFiles_def loadDocuments_begin_def upload_loop_trace upload_loop_keeps
      requests_append)

lemma uploadFiles_fileToDelete: "fileToDelete (uploadFiles server files s) = fileToDelete s"
  by (simp add: uploadFiles_def loadDocuments_begin_def upload_loop_keeps)

lemma loadDocuments_resume_fileToDelete:
  "fileToDelete (loadDocuments_resume outcome s) = fileToDelete s"
  by (simp add: loadDocuments_resume_def displayDocuments_def Let_def split: sum.splits)

lemma loadDocuments_resume_requests:
  "requests (trace (loadDocuments_resume outcome s)) = requests (trace s)"
  by (simp add: loadDocuments_resume_def displayDocuments_def Let_def requests_append
      split: sum.splits)

lemma confirmDelete_resume_fileToDelete:
  "fileToDelete (confirmDelete_resume outcome s) = Some f \<Longrightarrow> fileToDelete s = Some f"
  by (simp add: confirmDelete_resume_def loadDocuments_begin_def showStatus_def Let_def
      split: sum.splits)

lemma confirmDelete_resume_requests:
  "r \<in> set (requests (trace (confirmDelete_resume outcome s))) \<Longrightarrow>
     r \<in> set (requests (trace s)) \<or> r = documents_request (token s)"
  by (auto simp: confirmDelete_resume_def loadDocuments_begin_def showStatus_def Let_def
      requests_append split: sum.splits)

lemma not_DELETE:
  "http_method (documents_request tok) \<noteq> js ''DELETE''"
  "http_method (upload_request tok file) \<noteq> js ''DELETE''"
  by (simp_all add: documents_request_def upload_request_def js_eq_iff)

lemma step_fileToDelete:
  assumes "fileToDelete (step s a) = Some f"
  shows "a = RowDelete f \<or> (fileToDelete s = Some f \<and> a \<noteq> CancelClick \<and> (\<forall>g. a \<noteq> RowDelete g))"
proof (cases a)
  case (RowDelete g)
  with assms show ?thesis by (simp add: showDeleteModal_def)
next
  case CancelClick
  with assms show ?thesis by (simp add: cancelDelete_click_def)
next
  case ConfirmClick
  with assms show ?thesis by (simp add: confirmDelete_begin_def split: if_splits)
next
  case (DeleteSettles outcome)
  with assms show ?thesis
    by (auto dest: confirmDelete_resume_fileToDelete split: if_splits)
next
  case RefreshClick
  with assms show ?thesis by (simp add: loadDocuments_begin_def)
next
  case (ListSettles outcome)
  with assms show ?thesis by (simp add: loadDocuments_resume_fileToDelete split: if_splits)
next
  case LogoutClick
  with assms show ?thesis by (simp add: logout_click_def)
next
  case (FilesChosen server files)
  with assms show ?thesis by (simp add: uploadFiles_fileToDelete split: if_splits)
next
  case (FilesDropped server files)
  with assms show ?thesis by (simp add: uploadFiles_fileToDelete)
qed

lemma step_requests:
  assumes "r \<in> set (requests (trace (step s a)))" "http_method r = js ''DELETE''"
  shows "r \<in> set (requests (trace s)) \<or>
         (a = ConfirmClick \<and>
          (\<exists>f. fileToDelete s = Some f \<and> f \<noteq> [] \<and> r = delete_request (token s) (Some f)))"
proof (cases a)
  case (RowDelete g)
  with assms show ?thesis by (simp add: showDeleteModal_def)
next
  case CancelClick
  with assms show ?thesis by (simp add: cancelDelete_click_def)
next
  case ConfirmClick
  with assms show ?thesis
    by (auto simp: confirmDelete_begin_def falsy_opt_def falsy_def requests_append
        split: if_splits option.splits)
next
  case (DeleteSettles outcome)
  with assms show ?thesis
    by (auto dest!: confirmDelete_resume_requests simp: not_DELETE split: if_splits)
next
  case RefreshClick
  with assms show ?thesis
    by (auto simp: loadDocuments_begin_def requests_append not_DELETE)
next
  case (ListSettles outcome)
  with assms show ?thesis by (simp add: loadDocuments_resume_requests split: if_splits)
next
  case LogoutClick
  with assms show ?thesis by (simp add: logout_click_def requests_append)
next
  case (FilesChosen server files)
  with assms show ?thesis
    by (auto simp: uploadFiles_requests not_DELETE split: if_splits)
next
  case (FilesDropped server files)
  with assms show ?thesis
    by (auto simp: uploadFiles_requests not_DELETE)
qed

lemma run_snoc: "run s (actions @ [a]) = step (run s actions) a"
  by (simp add: run_def)

lemma run_token: "token (run s actions) = token s"
proof (induction actions rule: rev_induct)
  case Nil
  show ?case by (simp add: run_def)
next
  case (snoc a actions)
  have "token (step t a) = token t" for t
    by (cases a)
      (simp_all add: showDeleteModal_def cancelDelete_click_def confirmDelete_begin_def
        confirmDelete_resume_def loadDocuments_begin_def loadDocuments_resume_def
        displayDocuments_def logout_click_def uploadFiles_def upload_loop_keeps showStatus_def
        Let_def split: sum.splits)
  with snoc show ?case by (simp add: run_snoc)
qed

text \<open>The modal names the file of the last row button clicked, with no cancel since.\<close>

lemma run_fileToDelete:
  assumes "fileToDelete s = None" "fileToDelete (run s actions) = Some f"
  shows "\<exists>before between. actions = before @ RowDelete f # between \<and>
           (\<forall>a \<in> set between. a \<noteq> CancelClick \<and> (\<forall>g. a \<noteq> RowDelete g))"
  using assms(2)
proof (induction actions arbitrary: f rule: rev_induct)
  case Nil
  with assms(1) show ?case by (simp add: run_def)
next
  case (snoc a actions)
  from snoc.prems have "fileToDelete (step (run s actions) a) = Some f"
    by (simp add: run_snoc)
  from step_fileToDelete [OF this] show ?case
  proof
    assume "a = RowDelete f"
    then have "actions @ [a] = actions @ RowDelete f # []" by simp
    then show ?thesis by (metis empty_iff list.set(1))
  next
    assume h: "fileToDelete (run s actions) = Some f \<and> a \<noteq> CancelClick \<and> (\<forall>g. a \<noteq> RowDelete g)"
    with snoc.IH obtain before between where
      "actions = before @ RowDelete f # between"
      "\<forall>a \<in> set between. a \<noteq> CancelClick \<and> (\<forall>g. a \<noteq> RowDelete g)"
      by blast
    with h have "actions @ [a] = before @ RowDelete f # (between @ [a])"
      "\<forall>a \<in> set (between @ [a]). a \<noteq> CancelClick \<and> (\<forall>g. a \<noteq> RowDelete g)"
      by auto
    then show ?thesis by blast
  qed
qed

lemma run_delete_requests:
  assumes "fileToDelete s = None"
    and "\<forall>r \<in> set (requests (trace s)). http_method r \<noteq> js ''DELETE''"
    and "r \<in> set (requests (trace (run s actions)))" "http_method r = js ''DELETE''"
  shows "\<exists>filename before between after.
           actions = before @ RowDelete filename # between @ ConfirmClick # after \<and>
           (\<forall>a \<in> set between. a \<noteq> CancelClick \<and> (\<forall>g. a \<noteq> RowDelete g)) \<and>
           filename \<noteq> [] \<and> r = delete_request (token s) (Some filename)"
  using assms(3)
proof (induction actions rule: rev_induct)
  case Nil
  with assms(2,4) show ?case by (simp add: run_def)
next
  case (snoc a actions)
  from snoc.prems have "r \<in> set (requests (trace (step (run s actions) a)))"
    by (simp add: run_snoc)
  from step_requests [OF this assms(4)] show ?case
  proof
    assume "r \<in> set (requests (trace (run s actions)))"
    with snoc.IH obtain filename before between after where
      "actions = before @ RowDelete filename # between @ ConfirmClick # after"
      "\<forall>a \<in> set between. a \<noteq> CancelClick \<and> (\<forall>g. a \<noteq> RowDelete g)"
      "filename \<noteq> []" "r = delete_request (token s) (Some filename)"
      by blast
    then have "actions @ [a] = before @ RowDelete filename # between @ ConfirmClick # (after @ [a])"
      by simp
    with \<open>\<forall>a \<in> set between. _\<close> \<open>filename \<noteq> []\<close> \<open>r = _\<close> show ?thesis by blast
  next
    assume "a = ConfirmClick \<and>
      (\<exists>f. fileToDelete (run s actions) = Some f \<and> f \<noteq> [] \<and>
           r = delete_request (token (run s actions)) (Some f))"
    then obtain f where a: "a = ConfirmClick" and f: "fileToDelete (run s actions) = Some f"
      "f \<noteq> []" "r = delete_request (token s) (Some f)"
      by (auto simp: run_token)
    from run_fileToDelete [OF assms(1) f(1)] obtain before between where
      "actions = before @ RowDelete f # between"
      "\<forall>a \<in> set between. a \<noteq> CancelClick \<and> (\<forall>g. a \<noteq> RowDelete g)"
      by blast
    with a have "actions @ [a] = before @ RowDelete f # between @ ConfirmClick # []"
      by simp
    with \<open>\<forall>a \<in> set between. _\<close> f show ?thesis by blast
  qed
qed

lemma confirmDelete_resume_failure:
  assumes "isl (confirmDelete_try outcome)"
  shows "confirmDelete_resume outcome s =
           emit [Settled, ConsoleError (js ''Delete error:''),
                 Status (js ''Failed to delete document'') (js ''error'')]
             (s\<lparr>awaiting_delete := awaiting_delete s - 1\<rparr>)"
  using assms
  by (cases "confirmDelete_try outcome")
    (simp_all add: confirmDelete_resume_def showStatus_def emit_def)

lemma admin_script_start:
  "fileToDelete (admin_script (fresh_page stored)) = None"
  "token (admin_script (fresh_page stored)) = stored"
  "requests (trace (admin_script (fresh_page stored))) = [documents_request stored]"
  by (simp_all add: admin_script_def fresh_page_def loadDocuments_begin_def emit_def Let_def)

text \<open>
  C6. Whatever the user does on the admin page after it has loaded, a DELETE request
  is issued only by a click on confirm, for the file named by an earlier click on a
  row's delete button (which opens the modal for that file), with no cancel and no
  other row button in between. When the delete request fails (it is rejected, or the
  status is not ok), the handler shows the error banner and nothing else: no request
  is issued and the document table, the modal's target and the listing stay as they
  were.
\<close>

theorem delete_needs_confirmation:
  "(r \<in> set (requests (trace (run (admin_script (fresh_page stored)) actions))) \<and>
    http_method r = js ''DELETE'' \<longrightarrow>
      (\<exists>filename before between after.
         actions = before @ RowDelete filename # between @ ConfirmClick # after \<and>
         (\<forall>a \<in> set between. a \<noteq> CancelClick \<and> (\<forall>g. a \<noteq> RowDelete g)) \<and>
         filename \<noteq> [] \<and> r = delete_request stored (Some filename))) \<and>
   (isl (confirmDelete_try (outcome :: unit fetched)) \<longrightarrow>
      trace (confirmDelete_resume outcome s) =
        trace s @ [Settled, ConsoleError (js ''Delete error:''),
                   Status (js ''Failed to delete document'') (js ''error'')] \<and>
      documentsTable (confirmDelete_resume outcome s) = documentsTable s \<and>
      fileToDelete (confirmDelete_resume outcome s) = fileToDelete s \<and>
      deleteModal_display (confirmDelete_resume outcome s) = deleteModal_display s \<and>
      awaiting_list (confirmDelete_resume outcome s) = awaiting_list s)"
proof (intro conjI impI)
  assume h: "r \<in> set (requests (trace (run (admin_script (fresh_page stored)) actions))) \<and>
    http_method r = js ''DELETE''"
  have "\<forall>r \<in> set (requests (trace (admin_script (fresh_page stored)))).
          http_method r \<noteq> js ''DELETE''"
    by (simp add: admin_script_start not_DELETE)
  from run_delete_requests [OF admin_script_start(1) this] h
  show "\<exists>filename before between after.
         actions = before @ RowDelete filename # between @ ConfirmClick # after \<and>
         (\<forall>a \<in> set between. a \<noteq> CancelClick \<and> (\<forall>g. a \<noteq> RowDelete g)) \<and>
         filename \<noteq> [] \<and> r = delete_request stored (Some filename)"
    by (simp add: admin_script_start)
next
  assume f: "isl (confirmDelete_try outcome)"
  show "trace (confirmDelete_resume outcome s) =
        trace s @ [Settled, ConsoleError (js ''Delete error:''),
                   Status (js ''Failed to delete document'') (js ''error'')]"
    by (simp add: confirmDelete_resume_failure [OF f])
  show "documentsTable (confirmDelete_resume outcome s) = documentsTable s"
    by (simp add: confirmDelete_resume_failure [OF f])
  show "fileToDelete (confirmDelete_resume outcome s) = fileToDelete s"
    by (simp add: confirmDelete_resume_failure [OF f])
  show "deleteModal_display (confirmDelete_resume outcome s) = deleteModal_display s"
    by (simp add: confirmDelete_resume_failure [OF f] emit_def)
  show "awaiting_list (confirmDelete_resume outcome s) = awaiting_list s"
    by (simp add: confirmDelete_resume_failure [OF f])
qed

theorem delete_needs_confirmation_witness:
  "delete_request (Some (js ''t'')) (Some (js ''a.pdf''))
     \<in> set (requests (trace (run (admin_script (fresh_page (Some (js ''t''))))
                               [RowDelete (js ''a.pdf''), ConfirmClick]))) \<and>
   http_method (delete_request (Some (js ''t'')) (Some (js ''a.pdf''))) = js ''DELETE'' \<and>
   (\<exists>filename before between after.
      [RowDelete (js ''a.pdf''), ConfirmClick] =
        before @ RowDelete filename # between @ ConfirmClick # after \<and>
      (\<forall>a \<in> set between. a \<noteq> CancelClick \<and> (\<forall>g. a \<noteq> RowDelete g)) \<and>
      filename \<noteq> [] \<and>
      delete_request (Some (js ''t'')) (Some (js ''a.pdf'')) =
        delete_request (Some (js ''t'')) (Some filename)) \<and>
   isl (confirmDelete_try (Response 500 (Inl []) :: unit fetched)) \<and>
   documentsTable (confirmDelete_resume (Response 500 (Inl []) :: unit fetched)
                     (fresh_page (Some (js ''t'')))) = Loading"
proof -
  have a: "delete_request (Some (js ''t'')) (Some (js ''a.pdf''))
     \<in> set (requests (trace (run (admin_script (fresh_page (Some (js ''t''))))
                               [RowDelete (js ''a.pdf''), ConfirmClick]))) \<and>
     http_method (delete_request (Some (js ''t'')) (Some (js ''a.pdf''))) = js ''DELETE''"
    by (simp add: run_def admin_script_def fresh_page_def loadDocuments_begin_def
        showDeleteModal_def confirmDelete_begin_def falsy_opt_def falsy_def emit_def
        requests_append delete_request_def js_def)
  have b: "isl (confirmDelete_try (Response 500 (Inl []) :: unit fetched))"
    by (simp add: confirmDelete_try_def ok_def)
  have c: "documentsTable (fresh_page (Some (js ''t''))) = Loading"
    by (simp add: fresh_page_def)
  from delete_needs_confirmation
    [of "delete_request (Some (js ''t'')) (Some (js ''a.pdf''))" "Some (js ''t'')"
        "[RowDelete (js ''a.pdf''), ConfirmClick]" "Response 500 (Inl [])"
        "fresh_page (Some (js ''t''))"] a b c
  show ?thesis by simp
qed

section \<open>Empty questions\<close>

lemma requests_alerts_tail [simp]:
  "requests [Alert m] = []"
  "requests [ConsoleLog a, ConsoleLog b] = []"
  by simp_all

text \<open>
  C5, as the code has it. When the trimmed question is empty, neither client issues a
  request and neither leaves its state: the single-shot client changes nothing but
  shows the alert \<^verbatim>\<open>Please enter a question\<close> and returns; the chat client changes
  nothing, writes two lines on the console and returns, and shows no notice.
\<close>

theorem empty_question_rejected:
  "(trim (queryInput_value s) = [] \<longrightarrow>
      submitQuery_begin s =
        (s\<lparr>page_trace := page_trace s @ [Alert (js ''Please enter a question'')]\<rparr>, False) \<and>
      submitQuery native outcome s = fst (submitQuery_begin s) \<and>
      requests (page_trace (submitQuery native outcome s)) = requests (page_trace s) \<and>
      page_state (submitQuery native outcome s) = page_state s) \<and>
   (trim (chatInput_value c) = [] \<longrightarrow>
      sendMessage_begin now c =
        (c\<lparr>chat_trace := chat_trace c @
              [ConsoleLog (js ''Sending message:''),
               ConsoleLog (js ''Empty question, ignoring'')]\<rparr>, None) \<and>
      sendMessage native now outcome now' c = fst (sendMessage_begin now c) \<and>
      requests (chat_trace (sendMessage native now outcome now' c)) = requests (chat_trace c) \<and>
      alerts (chat_trace (sendMessage native now outcome now' c)) = alerts (chat_trace c) \<and>
      chat_state (sendMessage native now outcome now' c) = chat_state c)"
proof (intro conjI impI)
  assume e: "trim (queryInput_value s) = []"
  then show b: "submitQuery_begin s =
        (s\<lparr>page_trace := page_trace s @ [Alert (js ''Please enter a question'')]\<rparr>, False)"
    by (simp add: submitQuery_begin_def falsy_def)
  then show r: "submitQuery native outcome s = fst (submitQuery_begin s)"
    by (simp add: submitQuery_def)
  from b r show "requests (page_trace (submitQuery native outcome s)) = requests (page_trace s)"
    by (simp add: requests_append)
  from b r show "page_state (submitQuery native outcome s) = page_state s"
    by (simp add: page_state_def)
next
  assume e: "trim (chatInput_value c) = []"
  then show b: "sendMessage_begin now c =
        (c\<lparr>chat_trace := chat_trace c @
              [ConsoleLog (js ''Sending message:''),
               ConsoleLog (js ''Empty question, ignoring'')]\<rparr>, None)"
    by (simp add: sendMessage_begin_def falsy_def)
  then show r: "sendMessage native now outcome now' c = fst (sendMessage_begin now c)"
    by (simp add: sendMessage_def)
  from b r show "requests (chat_trace (sendMessage native now outcome now' c)) = requests (chat_trace c)"
    by (simp add: requests_append)
  have "alerts (xs @ [ConsoleLog a, ConsoleLog b]) = alerts xs" for xs a b
    by (induction xs rule: alerts.induct) simp_all
  with b r show "alerts (chat_trace (sendMessage native now outcome now' c)) = alerts (chat_trace c)"
    by simp
  from b r show "chat_state (sendMessage native now outcome now' c) = chat_state c"
    by (simp add: chat_state_def)
qed

theorem empty_question_rejected_witness:
  "trim (queryInput_value
      \<lparr>queryInput_value = [0x0020, 0x0009], submitBtn_disabled = False, btnText_display = [],
       btnLoading_display = [], emptyState_display = [], resultsSection_display = [],
       answerContent_textContent = [], processingTime_textContent = [],
       sourcesContent = Children [], page_trace = []\<rparr>) = [] \<and>
   page_trace (submitQuery id (NetworkError [])
      \<lparr>queryInput_value = [0x0020, 0x0009], submitBtn_disabled = False, btnText_display = [],
       btnLoading_display = [], emptyState_display = [], resultsSection_display = [],
       answerContent_textContent = [], processingTime_textContent = [],
       sourcesContent = Children [], page_trace = []\<rparr>) = [Alert (js ''Please enter a question'')] \<and>
   trim (chatInput_value
      \<lparr>chatInput_value = [0x0020, 0x000A], chatInput_height = [], chatInput_disabled = False,
       sendBtn_disabled = False, chatContainer = [], chatHistory = [], chat_trace = []\<rparr>) = [] \<and>
   requests (chat_trace (sendMessage id 0 (NetworkError []) 0
      \<lparr>chatInput_value = [0x0020, 0x000A], chatInput_height = [], chatInput_disabled = False,
       sendBtn_disabled = False, chatContainer = [], chatHistory = [], chat_trace = []\<rparr>)) = [] \<and>
   chat_state (sendMessage id 0 (NetworkError []) 0
      \<lparr>chatInput_value = [0x0020, 0x000A], chatInput_height = [], chatInput_disabled = False,
       sendBtn_disabled = False, chatContainer = [], chatHistory = [], chat_trace = []\<rparr>) = Idle"
proof -
  let ?s = "\<lparr>queryInput_value = [0x0020, 0x0009], submitBtn_disabled = False, btnText_display = [],
       btnLoading_display = [], emptyState_display = [], resultsSection_display = [],
       answerContent_textContent = [], processingTime_textContent = [],
       sourcesContent = Children [], page_trace = []\<rparr>"
  let ?c = "\<lparr>chatInput_value = [0x0020, 0x000A], chatInput_height = [], chatInput_disabled = False,
       sendBtn_disabled = False, chatContainer = [], chatHistory = [], chat_trace = []\<rparr>"
  have s: "trim (queryInput_value ?s) = []"
    by (simp add: trim_def is_white_space_def)
  have c: "trim (chatInput_value ?c) = []"
    by (simp add: trim_def is_white_space_def)
  from empty_question_rejected [of ?s id "NetworkError []" ?c 0 0] s c
  show ?thesis by (simp add: chat_state_def)
qed

text \<open>
  The chat client, given a question of white space only, shows no blocking notice:
  its trace holds no alert.
\<close>

theorem sendMessage_empty_no_notice:
  "trim (chatInput_value
      \<lparr>chatInput_value = [0x0020, 0x0020], chatInput_height = [], chatInput_disabled = False,
       sendBtn_disabled = False, chatContainer = [], chatHistory = [], chat_trace = []\<rparr>) = [] \<and>
   alerts (chat_trace (sendMessage id 0 (NetworkError []) 0
      \<lparr>chatInput_value = [0x0020, 0x0020], chatInput_height = [], chatInput_disabled = False,
       sendBtn_disabled = False, chatContainer = [], chatHistory = [], chat_trace = []\<rparr>)) = []"
  by (simp add: sendMessage_def sendMessage_begin_def trim_def is_white_space_def falsy_def)

section \<open>Escaping\<close>

lemma serialize_text_Cons: "serialize_text (c # s) = escape_char c @ serialize_text s"
  by (simp add: serialize_text_def)

lemma serialize_text_append: "serialize_text (a @ b) = serialize_text a @ serialize_text b"
  by (simp add: serialize_text_def)

lemma unescape_escape_char:
  "unescapeHtml (escape_char c @ r) = c # unescapeHtml r"
  by (auto simp: escape_char_def js_def)


lemma serialize_text_no_markup:
  "0x003C \<notin> set (serialize_text s) \<and> 0x003E \<notin> set (serialize_text s)"
  by (induction s) (auto simp: serialize_text_Cons escape_char_def js_def serialize_text_def)

lemma escapeHtml_serialize: "escapeHtml t = serialize_text t"
  by (simp add: escapeHtml_def falsy_def serialize_text_def)

lemma strip_tags_plain:
  "0x003C \<notin> set x \<Longrightarrow> strip_tags False (x @ r) = x @ strip_tags False r"
  by (induction x) auto

lemma strip_format_paragraph:
  "strip_tags False (format_paragraph p @ r) = serialize_text (trim p) @ strip_tags False r"
proof (cases "trim p = []")
  case True
  then show ?thesis by (simp add: format_paragraph_def falsy_def serialize_text_def)
next
  case False
  have open_p: "strip_tags False (js ''<p>'' @ x) = strip_tags False x" for x
    by (simp add: js_def)
  have close_p: "strip_tags False (js ''</p>'' @ x) = strip_tags False x" for x
    by (simp add: js_def)
  have open_d: "strip_tags False (js ''<div class='' @ dq @ js ''list-item'' @ dq @ js ''>'' @ x)
      = strip_tags False x" for x
    by (simp add: js_def dq_def)
  have close_d: "strip_tags False (js ''</div>'' @ x) = strip_tags False x" for x
    by (simp add: js_def)
  have plain: "strip_tags False (serialize_text (trim p) @ x) = serialize_text (trim p) @ strip_tags False x" for x
    by (rule strip_tags_plain) (simp add: serialize_text_no_markup)
  from False show ?thesis
    by (simp add: format_paragraph_def falsy_def Let_def escapeHtml_serialize
        open_p close_p open_d close_d plain)
qed




lemma createSourceElement_raw:
  "\<exists>before after. innerHTML (createSourceElement native source index) =
      before @ js ''>'' @ src_filename source @ js ''</span>'' @ after"
  unfolding createSourceElement_def Let_def element.sel
  by (metis append.assoc)

section \<open>Rendering of the answer\<close>


section \<open>What the chat client shows\<close>

lemma strip_tags_in_tag:
  "0x003E \<notin> set x \<Longrightarrow> strip_tags True (x @ r) = strip_tags True r"
  by (induction x) auto

lemma strip_serialize [simp]:
  "strip_tags False (serialize_text s @ r) = serialize_text s @ strip_tags False r"
  "strip_tags True (serialize_text s @ r) = strip_tags True r"
  using serialize_text_no_markup [of s]
  by (simp_all add: strip_tags_plain strip_tags_in_tag)

lemma unescape_plain:
  "0x0026 \<notin> set x \<Longrightarrow> unescapeHtml (x @ r) = x @ unescapeHtml r"
  by (induction x) (auto simp: js_def)

lemma unescape_serialize_append [simp]:
  "unescapeHtml (serialize_text s @ r) = s @ unescapeHtml r"
  by (induction s) (simp_all add: serialize_text_Cons unescape_escape_char serialize_text_def)











lemma unat_digit:
  assumes "d < 10"
  shows "unat (digit d) = 48 + d"
proof -
  have "unat (of_nat (48 + d) :: jschar) = (48 + d) mod 2 ^ LENGTH(16)"
    by (rule unat_of_nat)
  also have "\<dots> = 48 + d"
    using assms by simp
  finally show ?thesis by (simp only: digit_def)
qed

lemma digit_plain:
  assumes "d < 10"
  shows "digit d \<noteq> 0x003C \<and> digit d \<noteq> 0x0026"
proof -
  have "unat (digit d) \<noteq> unat (0x003C :: jschar)" "unat (digit d) \<noteq> unat (0x0026 :: jschar)"
    using assms by (simp_all add: unat_digit)
  then show ?thesis by auto
qed

lemma digits_plain: "0x003C \<notin> set (digits n) \<and> 0x0026 \<notin> set (digits n)"
proof (induction n rule: digits.induct)
  case (1 n)
  show ?case
  proof (cases "n < 10")
    case True
    then show ?thesis
      using digit_plain [of n] by (auto simp: digits_lt10)
  next
    case False
    have "n mod 10 < 10" by simp
    from digit_plain [OF this] "1.IH" False show ?thesis
      by (auto simp: digits_ge10)
  qed
qed

lemma toFixed2_plain: "0x003C \<notin> set (toFixed2 x) \<and> 0x0026 \<notin> set (toFixed2 x)"
proof -
  have a: "n mod 100 div 10 < 10" "n mod 10 < 10" for n :: nat
    by simp_all
  show ?thesis
    using digits_plain digit_plain [OF a(1)] digit_plain [OF a(2)]
    by (auto simp: toFixed2_def Let_def js_def)
qed

lemma strip_toFixed2 [simp]:
  "strip_tags False (toFixed2 x @ r) = toFixed2 x @ strip_tags False r"
  using toFixed2_plain [of x] by (simp add: strip_tags_plain)

lemma unescape_toFixed2 [simp]:
  "unescapeHtml (toFixed2 x @ r) = toFixed2 x @ unescapeHtml r"
  using toFixed2_plain [of x] by (simp add: unescape_plain)

lemma strip_paragraphs_append:
  "strip_tags False (concat (map format_paragraph ps) @ r) =
     serialize_text (concat (map trim ps)) @ strip_tags False r"
  by (induction ps) (simp_all add: strip_format_paragraph serialize_text_append serialize_text_def)

lemma strip_formatAnswer [simp]:
  "strip_tags False (formatAnswer a @ r) =
     serialize_text (concat (map trim (split a (nl @ nl)))) @ strip_tags False r"
proof (cases "a = []")
  case True
  then show ?thesis
    by (simp add: formatAnswer_def falsy_def split_def trim_def serialize_text_def)
next
  case False
  then show ?thesis
    by (simp add: formatAnswer_def falsy_def strip_paragraphs_append)
qed








end
